theory Spec2Isabelle
  imports Complex_Main
begin

section \<open>Numbers, errors and arrays\<close>

text \<open>
  The estimators of \<^verbatim>\<open>pauxy/estimators.py\<close> compute with numpy's complex numbers.
  A finite number is an exact \<^typ>\<open>complex\<close>, and the operations below do not round; the
  one property that depends on the rounding, the order of the additions into the buffer
  of the mixed estimator, is stated over an arithmetic that rounds. A numpy division
  by zero does not raise, it yields an IEEE \<^verbatim>\<open>inf\<close> or \<^verbatim>\<open>nan\<close>; \<open>NonFinite\<close> stands for
  such a result and for every number computed from one (the two are not told apart, and
  a number computed from a \<open>NonFinite\<close> stays marked until it is overwritten).
\<close>

datatype cnum = Fin complex | NonFinite

text \<open>
  The exceptions of Python that the program can raise. \<open>NotFinite\<close> is not an
  exception: the entries of a matrix are finite numbers in this model, and \<open>NotFinite\<close>
  marks the point where a division by zero would put \<^verbatim>\<open>inf\<close> or \<^verbatim>\<open>nan\<close> into a matrix,
  beyond which the model does not follow the program.
\<close>

datatype error = ZeroDivisionError | LinAlgError | ValueError | IndexError
  | NameError | TypeError | AttributeError | NotFinite

fun cadd :: "cnum \<Rightarrow> cnum \<Rightarrow> cnum" where
  "cadd (Fin a) (Fin b) = Fin (a + b)"
| "cadd _ _ = NonFinite"

fun cmul :: "cnum \<Rightarrow> cnum \<Rightarrow> cnum" where
  "cmul (Fin a) (Fin b) = Fin (a * b)"
| "cmul _ _ = NonFinite"

fun cdiv :: "cnum \<Rightarrow> cnum \<Rightarrow> cnum" where
  "cdiv (Fin a) (Fin b) = (if b = 0 then NonFinite else Fin (a / b))"
| "cdiv _ _ = NonFinite"

fun csub :: "cnum \<Rightarrow> cnum \<Rightarrow> cnum" where
  "csub (Fin a) (Fin b) = Fin (a - b)"
| "csub _ _ = NonFinite"

text \<open>\<^verbatim>\<open>x.real\<close>, stored back into a complex buffer.\<close>

definition creal :: "complex \<Rightarrow> complex" where
  "creal z = complex_of_real (Re z)"

definition ebind :: "error + 'a \<Rightarrow> ('a \<Rightarrow> error + 'b) \<Rightarrow> error + 'b" where
  "ebind r f = (case r of Inl e \<Rightarrow> Inl e | Inr x \<Rightarrow> f x)"

section \<open>Matrices\<close>

text \<open>
  A two-dimensional numpy array: the number of columns and the list of rows. The number
  of rows is the length of the list, and the array is well formed when every row has
  \<open>ncols\<close> entries. Arrays of more dimensions are lists of matrices.
\<close>

datatype mat = Mat (ncols: nat) (rows: "complex list list")

definition nrows :: "mat \<Rightarrow> nat" where
  "nrows A = length (rows A)"

definition wf_mat :: "mat \<Rightarrow> bool" where
  "wf_mat A = list_all (\<lambda>r. length r = ncols A) (rows A)"

definition shape :: "mat \<Rightarrow> nat \<times> nat" where
  "shape A = (nrows A, ncols A)"

definition identity :: "nat \<Rightarrow> mat" where
  "identity n = Mat n (map (\<lambda>i. map (\<lambda>j. if i = j then 1 else 0) [0..<n]) [0..<n])"

definition zeros :: "nat \<Rightarrow> nat \<Rightarrow> mat" where
  "zeros n m = Mat m (replicate n (replicate m 0))"

text \<open>\<^verbatim>\<open>A.T\<close>, \<^verbatim>\<open>A.conj()\<close> and the matrix product behind \<^verbatim>\<open>A.dot(B)\<close>.\<close>

definition transpose_mat :: "mat \<Rightarrow> mat" where
  "transpose_mat A = Mat (nrows A) (map (\<lambda>j. map (\<lambda>r. r ! j) (rows A)) [0..<ncols A])"

definition conj_mat :: "mat \<Rightarrow> mat" where
  "conj_mat A = Mat (ncols A) (map (map cnj) (rows A))"

definition mat_mul :: "mat \<Rightarrow> mat \<Rightarrow> mat" where
  "mat_mul A B =
     Mat (ncols B)
       (map (\<lambda>r. map (\<lambda>j. \<Sum>k\<leftarrow>[0..<ncols A]. r ! k * (rows B ! k ! j)) [0..<ncols B])
          (rows A))"

text \<open>\<^verbatim>\<open>A.dot(B)\<close> raises ValueError when the shapes are not aligned.\<close>

definition dot :: "mat \<Rightarrow> mat \<Rightarrow> error + mat" where
  "dot A B = (if ncols A = nrows B then Inr (mat_mul A B) else Inl ValueError)"

text \<open>
  \<^verbatim>\<open>A + B\<close> and \<^verbatim>\<open>A - B\<close>, for operands of one shape. numpy raises ValueError on
  other shapes unless it can broadcast them; broadcasting is not modelled.
\<close>

definition mat_map2 :: "(complex \<Rightarrow> complex \<Rightarrow> complex) \<Rightarrow> mat \<Rightarrow> mat \<Rightarrow> mat" where
  "mat_map2 f A B = Mat (ncols A) (map2 (map2 f) (rows A) (rows B))"

definition elementwise :: "(complex \<Rightarrow> complex \<Rightarrow> complex) \<Rightarrow> mat \<Rightarrow> mat \<Rightarrow> error + mat" where
  "elementwise f A B = (if shape A = shape B then Inr (mat_map2 f A B) else Inl ValueError)"

definition mat_add :: "mat \<Rightarrow> mat \<Rightarrow> error + mat" where
  "mat_add = elementwise (+)"

definition mat_sub :: "mat \<Rightarrow> mat \<Rightarrow> error + mat" where
  "mat_sub = elementwise (-)"

text \<open>
  \<^verbatim>\<open>gab(A, B)\<close>: \<open>B (A\<^sup>\<dagger> B)\<^sup>-\<^sup>1 A\<^sup>\<dagger>\<close>. \<^verbatim>\<open>scipy.linalg.inv\<close> belongs to a library and is
  the parameter \<open>linv\<close>; it raises LinAlgError on a singular matrix.
\<close>

definition gab :: "(mat \<Rightarrow> error + mat) \<Rightarrow> mat \<Rightarrow> mat \<Rightarrow> error + mat" where
  "gab linv A B =
     ebind (dot (transpose_mat (conj_mat A)) B) (\<lambda>ovlp.
     ebind (linv ovlp) (\<lambda>inv_O.
     ebind (dot inv_O (transpose_mat (conj_mat A))) (\<lambda>X.
     dot B X)))"

text \<open>
  The two products of the testable property of \<^verbatim>\<open>gab\<close>, for \<open>G = gab(A, A)\<close>:
  \<open>A\<^sup>\<dagger> (I - G)\<close> and \<open>A\<^sup>\<dagger> G\<close>.
\<close>

definition bra_times_complement :: "(mat \<Rightarrow> error + mat) \<Rightarrow> mat \<Rightarrow> error + mat" where
  "bra_times_complement linv A =
     ebind (gab linv A A) (\<lambda>G.
     ebind (mat_sub (identity (nrows A)) G) (\<lambda>D.
     dot (transpose_mat (conj_mat A)) D))"

definition bra_times_gab :: "(mat \<Rightarrow> error + mat) \<Rightarrow> mat \<Rightarrow> error + mat" where
  "bra_times_gab linv A =
     ebind (gab linv A A) (\<lambda>G. dot (transpose_mat (conj_mat A)) G)"

text \<open>
  The inverse of a matrix of one or two rows, by the closed formula, for the examples:
  what \<^verbatim>\<open>scipy.linalg.inv\<close> returns on these shapes up to rounding. The examples use no
  other shape.
\<close>

definition small_inv :: "mat \<Rightarrow> error + mat" where
  "small_inv A =
     (case rows A of
        [[a]] \<Rightarrow> if a = 0 then Inl LinAlgError else Inr (Mat 1 [[1 / a]])
      | [[a, b], [c, d]] \<Rightarrow>
          if a * d - b * c = 0 then Inl LinAlgError
          else Inr (Mat 2 [[d / (a * d - b * c), - b / (a * d - b * c)],
                           [- c / (a * d - b * c), a / (a * d - b * c)]])
      | _ \<Rightarrow> Inl ValueError)"

text \<open>\<^verbatim>\<open>G.flatten()\<close> of an array of matrices, row-major.\<close>

definition flatten :: "mat list \<Rightarrow> complex list" where
  "flatten g = concat (map (\<lambda>m. concat (rows m)) g)"

section \<open>Walkers\<close>

text \<open>
  The walker class and the class of its field-configuration history are not part of the
  sources at hand. A walker carries the attributes the estimators read and write. Its
  methods \<^verbatim>\<open>w.greens_function(trial)\<close> and \<^verbatim>\<open>w.local_energy(system)\<close> are the parameters
  \<open>gf\<close> and \<open>le\<close> of the mixed estimator.

  An auxiliary-field configuration is an array of field values. The history answers
  \<^verbatim>\<open>get_block()\<close> with the configurations, the cosine factors and the weight factors
  of the window, each factor an array whose element 0 is read, and
  \<^verbatim>\<open>get_superblock()[0]\<close> with the configurations of the whole path.
\<close>

type_synonym config = "complex list"

record field_configs =
  get_block :: "config list \<times> complex list list \<times> complex list list"
  get_superblock0 :: "config list"

text \<open>
  The back-propagated state \<^verbatim>\<open>phi_bp\<close> is one matrix for an ordinary walker and an array
  of matrices, one for each determinant of the trial state, for a generalized one: its
  type is the parameter \<open>'l\<close>.
\<close>

record 'l walker =
  weight :: complex
  ot :: complex
  G :: "mat list"
  phi :: mat
  phi_old :: mat
  phi_init :: mat
  phi_bp :: 'l
  weights :: "complex list"
  field_configs :: field_configs

section \<open>The mixed estimator\<close>

text \<open>\<^verbatim>\<open>EstimatorEnum\<close>: the offsets of the named fields in the buffer.\<close>

definition names_weight :: nat where "names_weight = 0"
definition names_enumer :: nat where "names_enumer = 1"
definition names_edenom :: nat where "names_edenom = 2"
definition names_eproj :: nat where "names_eproj = 3"
definition names_ekin :: nat where "names_ekin = 4"
definition names_epot :: nat where "names_epot = 5"
definition names_time :: nat where "names_time = 6"

text \<open>
  \<^verbatim>\<open>H5EstimatorHelper\<close>: a dataset of a fixed number of rows and a write cursor.
  Writing past the last row raises in h5py.
\<close>

record 'r H5EstimatorHelper =
  store :: "'r list"
  index :: nat

definition push :: "'r H5EstimatorHelper \<Rightarrow> 'r \<Rightarrow> error + 'r H5EstimatorHelper" where
  "push h data =
     (if index h < length (store h)
      then Inr (h\<lparr>store := (store h)[index h := data], index := index h + 1\<rparr>)
      else Inl IndexError)"

text \<open>
  \<open>h5_output\<close> and \<open>h5_dm_output\<close> are the attributes \<^verbatim>\<open>output\<close> and \<^verbatim>\<open>dm_output\<close>,
  which exist on the root process only; \<open>printed\<close> collects the rows handed to
  \<^verbatim>\<open>print\<close>, before formatting.
\<close>

record Mixed =
  rdm :: bool
  nreg :: nat
  estimates :: "cnum list"
  global_estimates :: "cnum list"
  h5_output :: "cnum list H5EstimatorHelper option"
  h5_dm_output :: "cnum list H5EstimatorHelper option"
  printed :: "(int \<times> cnum list) list"

text \<open>
  \<^verbatim>\<open>buf[i] += x\<close> and \<^verbatim>\<open>buf[i:] += xs\<close> on a numpy buffer. The first raises IndexError
  out of range; the second raises ValueError when the lengths differ (numpy's
  broadcasting of a one-element operand is not modelled).
\<close>

definition add_at :: "nat \<Rightarrow> cnum \<Rightarrow> cnum list \<Rightarrow> error + cnum list" where
  "add_at i x buf =
     (if i < length buf then Inr (buf[i := cadd (buf ! i) x]) else Inl IndexError)"

definition add_from :: "nat \<Rightarrow> cnum list \<Rightarrow> cnum list \<Rightarrow> error + cnum list" where
  "add_from i xs buf =
     (if length (drop i buf) = length xs
      then Inr (take i buf @ map2 cadd (drop i buf) xs)
      else Inl ValueError)"

text \<open>One iteration of the loop of \<^verbatim>\<open>Mixed.update\<close>, importance sampling.\<close>

definition update_walker ::
  "('l walker \<Rightarrow> 'l walker) \<Rightarrow> ('l walker \<Rightarrow> complex \<times> complex \<times> complex) \<Rightarrow> bool \<Rightarrow>
   cnum list \<Rightarrow> 'l walker \<Rightarrow> error + cnum list" where
  "update_walker gf le rdm_flag es w0 =
     (let w = gf w0; (E, T, V) = le w in
      ebind (add_at names_enumer (Fin (weight w * creal E)) es) (\<lambda>es.
      ebind (add_at names_ekin (Fin (weight w * creal T)) es) (\<lambda>es.
      ebind (add_at names_epot (Fin (weight w * creal V)) es) (\<lambda>es.
      ebind (add_at names_weight (Fin (weight w)) es) (\<lambda>es.
      ebind (add_at names_edenom (Fin (weight w)) es) (\<lambda>es.
      if rdm_flag
      then add_from (names_time + 1) (map (\<lambda>g. Fin (weight w * creal g)) (flatten (G w))) es
      else Inr es))))))"

text \<open>One iteration of the loop of \<^verbatim>\<open>Mixed.update\<close>, free projection.\<close>

definition update_walker_fp ::
  "('l walker \<Rightarrow> 'l walker) \<Rightarrow> ('l walker \<Rightarrow> complex \<times> complex \<times> complex) \<Rightarrow>
   cnum list \<Rightarrow> 'l walker \<Rightarrow> error + cnum list" where
  "update_walker_fp gf le es w0 =
     (let w = gf w0 in
      ebind (add_at names_enumer (Fin (weight w * fst (le w) * ot w)) es) (\<lambda>es.
      ebind (add_at names_weight (Fin (weight w)) es) (\<lambda>es.
      add_at names_edenom (Fin (weight w * ot w)) es)))"

fun update_loop :: "(cnum list \<Rightarrow> 'l walker \<Rightarrow> error + cnum list) \<Rightarrow>
   cnum list \<Rightarrow> 'l walker list \<Rightarrow> error + cnum list" where
  "update_loop f es [] = Inr es"
| "update_loop f es (w # ws) = ebind (f es w) (\<lambda>es'. update_loop f es' ws)"

definition Mixed_update ::
  "('l walker \<Rightarrow> 'l walker) \<Rightarrow> ('l walker \<Rightarrow> complex \<times> complex \<times> complex) \<Rightarrow>
   Mixed \<Rightarrow> 'l walker list \<Rightarrow> bool \<Rightarrow> error + Mixed" where
  "Mixed_update gf le self walkers free_projection =
     ebind (update_loop
              (if \<not> free_projection then update_walker gf le (rdm self)
               else update_walker_fp gf le)
              (estimates self) walkers)
       (\<lambda>es. Inr (self\<lparr>estimates := es\<rparr>))"

text \<open>
  Modelled from the spec: the cross-process sum-reduction of mpi4py, which is not part of
  the sources: an element-wise sum over all process-local buffers, delivered to rank 0
  and to no other rank. \<open>others\<close> are the send buffers of the other ranks.
\<close>

record comm =
  rank :: nat
  others :: "cnum list list"

definition Reduce :: "comm \<Rightarrow> cnum list \<Rightarrow> cnum list \<Rightarrow> cnum list" where
  "Reduce c send recv =
     (if rank c = 0 then fold (\<lambda>b acc. map2 cadd acc b) (others c) send else recv)"

fun creal_n :: "cnum \<Rightarrow> cnum" where
  "creal_n (Fin z) = Fin (creal z)"
| "creal_n NonFinite = NonFinite"

definition num :: "int \<Rightarrow> cnum" where
  "num n = Fin (of_int n)"

text \<open>\<^verbatim>\<open>Mixed.zero\<close>; \<open>now\<close> is the value of \<^verbatim>\<open>time.time()\<close>.\<close>

definition Mixed_zero :: "real \<Rightarrow> Mixed \<Rightarrow> error + Mixed" where
  "Mixed_zero now self =
     (let es = replicate (length (estimates self)) (Fin 0);
          gs = replicate (length (global_estimates self)) (Fin 0)
      in if names_time < length es
         then Inr (self\<lparr>estimates := es[names_time := Fin (of_real now)],
                         global_estimates := gs\<rparr>)
         else Inl IndexError)"

text \<open>
  \<^verbatim>\<open>Mixed.print_step\<close>, in the order of its statements. \<open>t1\<close> and \<open>t2\<close> are the two
  readings of \<^verbatim>\<open>time.time()\<close>, in the body and in \<^verbatim>\<open>zero\<close>.

  First the normalisation: \<^verbatim>\<open>es\<close> is an alias of \<^verbatim>\<open>self.estimates\<close>, so the normalised
  values are written into the buffer itself. The result is \<^verbatim>\<open>denom\<close> and the buffer.
\<close>

definition Mixed_normalise :: "cnum list \<Rightarrow> int \<Rightarrow> int \<Rightarrow> real \<Rightarrow> cnum \<times> cnum list" where
  "Mixed_normalise es nprocs nmeasure t1 =
     (let denom = cdiv (cmul (es ! names_edenom) (num nprocs)) (num nmeasure);
          es = es[names_eproj := cdiv (es ! names_enumer) denom];
          es = es[names_ekin := cdiv (es ! names_ekin) denom,
                  names_epot := cdiv (es ! names_epot) denom];
          es = es[names_time := cdiv (csub (Fin (of_real t1)) (es ! names_time)) (num nprocs)]
      in (denom, es))"

text \<open>
  Then the reduction into \<^verbatim>\<open>self.global_estimates\<close>: \<^verbatim>\<open>comm.Reduce\<close>, or a copy when
  there is no communicator.
\<close>

definition Mixed_reduce :: "comm option \<Rightarrow> cnum list \<Rightarrow> cnum list \<Rightarrow> error + cnum list" where
  "Mixed_reduce cm es gs =
     (case cm of
        Some c \<Rightarrow> Inr (Reduce c es gs)
      | None \<Rightarrow> if length gs = length es then Inr es else Inl ValueError)"

text \<open>
  Then, without communicator or on rank 0, the printed line and the rows pushed to the
  datasets. The density matrix is pushed as the flat block of the buffer (the
  \<^verbatim>\<open>reshape\<close> only changes the shape).
\<close>

definition Mixed_write :: "Mixed \<Rightarrow> cnum \<Rightarrow> int \<Rightarrow> int \<Rightarrow> error + Mixed" where
  "Mixed_write self denom step nmeasure =
     (let gs = global_estimates self;
          line = (step, map (\<lambda>x. cdiv (creal_n x) (num nmeasure)) (take (names_time + 1) gs));
          row = map (\<lambda>x. cdiv x (num nmeasure)) (take (names_time + 1) gs)
      in
      case h5_output self of
        None \<Rightarrow> Inl AttributeError
      | Some h \<Rightarrow>
          ebind (push h row) (\<lambda>h.
          let self = self\<lparr>h5_output := Some h, printed := printed self @ [line]\<rparr> in
          if rdm self
          then
            case h5_dm_output self of
              None \<Rightarrow> Inl AttributeError
            | Some d \<Rightarrow>
                ebind (push d (map (\<lambda>x. cdiv (cdiv x denom) (num nmeasure))
                                 (drop (nreg self) gs)))
                  (\<lambda>d. Inr (self\<lparr>h5_dm_output := Some d\<rparr>))
          else Inr self))"

definition Mixed_print_step ::
  "Mixed \<Rightarrow> comm option \<Rightarrow> int \<Rightarrow> int \<Rightarrow> int \<Rightarrow> real \<Rightarrow> real \<Rightarrow> error + Mixed" where
  "Mixed_print_step self cm nprocs step nmeasure t1 t2 =
     (if length (estimates self) \<le> names_time then Inl IndexError
      else
        let (denom, es) = Mixed_normalise (estimates self) nprocs nmeasure t1 in
        ebind (Mixed_reduce cm es (global_estimates self)) (\<lambda>gs.
        let self = self\<lparr>estimates := es, global_estimates := gs\<rparr> in
        ebind (if cm = None \<or> map_option rank cm = Some 0
               then Mixed_write self denom step nmeasure
               else Inr self)
          (Mixed_zero t2)))"

text \<open>
  \<^verbatim>\<open>Mixed.__init__\<close>: \<open>gsize\<close> is \<^verbatim>\<open>trial.G.size\<close>, \<open>now\<close> the reading of the clock.
  The datasets are created on the root process only, with \<^verbatim>\<open>nsteps // nmeasure + 1\<close>
  rows.
\<close>

definition Mixed_init :: "bool \<Rightarrow> bool \<Rightarrow> int \<Rightarrow> int \<Rightarrow> nat \<Rightarrow> real \<Rightarrow> error + Mixed" where
  "Mixed_init rdm_flag is_root nsteps qmc_nmeasure gsize now =
     (if qmc_nmeasure = 0 then Inl ZeroDivisionError
      else
        let nmeasure = nsteps div qmc_nmeasure; n = 7 in
        if is_root \<and> nmeasure + 1 < 0 then Inl ValueError
        else Inr \<lparr>rdm = rdm_flag, nreg = n,
                estimates = (replicate (n + gsize) (Fin 0))[names_time := Fin (of_real now)],
                global_estimates = replicate (n + gsize) (Fin 0),
                h5_output =
                  (if is_root
                   then Some \<lparr>store = replicate (nat (nmeasure + 1)) (replicate n (Fin 0)),
                              index = 0\<rparr>
                   else None),
                h5_dm_output =
                  (if is_root \<and> rdm_flag
                   then Some \<lparr>store = replicate (nat (nmeasure + 1)) (replicate gsize (Fin 0)),
                              index = 0\<rparr>
                   else None),
                printed = []\<rparr>)"

subsection \<open>What one walker adds to the buffer\<close>

text \<open>
  The value a walker adds at offset \<open>i\<close> of the buffer, with importance sampling
  (\<open>contrib\<close>) and in free projection (\<open>contrib_fp\<close>); \<open>fits\<close> is the condition under
  which the density-matrix block of the walker has the length of the buffer's tail.
\<close>

definition contrib :: "('l walker \<Rightarrow> 'l walker) \<Rightarrow> ('l walker \<Rightarrow> complex \<times> complex \<times> complex) \<Rightarrow> bool \<Rightarrow>
   'l walker \<Rightarrow> nat \<Rightarrow> complex" where
  "contrib gf le r w0 i =
     (let w = gf w0; (E, T, V) = le w in
      if i = names_weight then weight w
      else if i = names_enumer then weight w * creal E
      else if i = names_edenom then weight w
      else if i = names_ekin then weight w * creal T
      else if i = names_epot then weight w * creal V
      else if r \<and> names_time < i then weight w * creal (flatten (G w) ! (i - (names_time + 1)))
      else 0)"

definition fits :: "('l walker \<Rightarrow> 'l walker) \<Rightarrow> bool \<Rightarrow> nat \<Rightarrow> 'l walker \<Rightarrow> bool" where
  "fits gf r n w0 = (r \<longrightarrow> n - (names_time + 1) = length (flatten (G (gf w0))))"

definition contrib_fp :: "('l walker \<Rightarrow> 'l walker) \<Rightarrow> ('l walker \<Rightarrow> complex \<times> complex \<times> complex) \<Rightarrow>
   'l walker \<Rightarrow> nat \<Rightarrow> complex" where
  "contrib_fp gf le w0 i =
     (let w = gf w0 in
      if i = names_weight then weight w
      else if i = names_enumer then weight w * fst (le w) * ot w
      else if i = names_edenom then weight w * ot w
      else 0)"

text \<open>
  The row most recently pushed to the energies dataset, and a buffer of zeros.
\<close>

definition last_row :: "Mixed \<Rightarrow> cnum list option" where
  "last_row self =
     (case h5_output self of
        None \<Rightarrow> None
      | Some h \<Rightarrow> if 0 < index h \<and> index h \<le> length (store h)
                  then Some (store h ! (index h - 1)) else None)"

definition all_zero :: "cnum list \<Rightarrow> bool" where
  "all_zero xs = (xs = replicate (length xs) (Fin 0))"

subsection \<open>A small population\<close>

text \<open>
  A mixed estimator without density matrix on a single process, one walker of weight 1
  and overlap 1, and a local energy whose value is purely imaginary.
\<close>

definition example_mixed :: Mixed where
  "example_mixed =
     \<lparr>rdm = False, nreg = 7, estimates = replicate 7 (Fin 0),
      global_estimates = replicate 7 (Fin 0),
      h5_output = Some \<lparr>store = replicate 3 (replicate 7 (Fin 0)), index = 0\<rparr>,
      h5_dm_output = None, printed = []\<rparr>"

definition example_walker :: "mat walker" where
  "example_walker =
     \<lparr>weight = 1, ot = 1, G = [], phi = Mat 1 [[1]], phi_old = Mat 1 [[1]],
      phi_init = Mat 1 [[1]], phi_bp = Mat 1 [[1]], weights = [1],
      field_configs = \<lparr>get_block = ([], [], []), get_superblock0 = []\<rparr>\<rparr>"

definition example_gf :: "mat walker \<Rightarrow> mat walker" where
  "example_gf w = w"

definition example_le :: "mat walker \<Rightarrow> complex \<times> complex \<times> complex" where
  "example_le w = (\<i>, 0, 0)"

definition zero_le :: "mat walker \<Rightarrow> complex \<times> complex \<times> complex" where
  "zero_le w = (0, 0, 0)"

text \<open>
  The estimator after a first and after a second emission at clock readings 5, 6 and
  7, 8, and the communicator of the second one: rank 0, with one other process whose
  buffer has been emitted and normalised as well.
\<close>

definition example_emitted :: Mixed where
  "example_emitted =
     example_mixed
       \<lparr>estimates := [Fin 0, Fin 0, Fin 0, Fin 0, Fin 0, Fin 0, Fin 6],
        h5_output :=
          Some \<lparr>store = [[Fin 0, Fin 0, Fin 0, NonFinite, NonFinite, NonFinite, Fin 5],
                         replicate 7 (Fin 0), replicate 7 (Fin 0)],
                index = 1\<rparr>,
        printed := [(0, [Fin 0, Fin 0, Fin 0, NonFinite, NonFinite, NonFinite, Fin 5])]\<rparr>"

definition example_emitted_twice :: Mixed where
  "example_emitted_twice =
     example_mixed
       \<lparr>estimates := [Fin 0, Fin 0, Fin 0, Fin 0, Fin 0, Fin 0, Fin 8],
        h5_output :=
          Some \<lparr>store = [[Fin 0, Fin 0, Fin 0, NonFinite, NonFinite, NonFinite, Fin 5],
                         [Fin 0, Fin 0, Fin 0, NonFinite, NonFinite, NonFinite, Fin 2],
                         replicate 7 (Fin 0)],
                index = 2\<rparr>,
        printed := [(0, [Fin 0, Fin 0, Fin 0, NonFinite, NonFinite, NonFinite, Fin 5]),
                    (1, [Fin 0, Fin 0, Fin 0, NonFinite, NonFinite, NonFinite, Fin 2])]\<rparr>"

definition example_comm :: comm where
  "example_comm =
     \<lparr>rank = 0, others = [[Fin 0, Fin 0, Fin 0, NonFinite, NonFinite, NonFinite, Fin 1]]\<rparr>"

subsection \<open>The accumulation with rounding\<close>

text \<open>
  The buffer of the mixed estimator is an array of complex128 numbers: every
  \<^verbatim>\<open>+=\<close> and every product of \<^verbatim>\<open>Mixed.update\<close> rounds. Where the order of the additions
  matters, the arithmetic of the update is a parameter: \<open>radd\<close> is the addition of
  \<^verbatim>\<open>+=\<close> on an entry of the buffer, \<open>rmul\<close> the product of two numbers. The functions below
  are \<^verbatim>\<open>Mixed.update\<close> and its loop bodies once more, statement by statement, over such an
  arithmetic; over the exact one they are the functions above.
\<close>

record arith =
  radd :: "cnum \<Rightarrow> cnum \<Rightarrow> cnum"
  rmul :: "complex \<Rightarrow> complex \<Rightarrow> complex"

definition exact_arith :: arith where
  "exact_arith = \<lparr>radd = cadd, rmul = (*)\<rparr>"

definition add_at_with :: "arith \<Rightarrow> nat \<Rightarrow> cnum \<Rightarrow> cnum list \<Rightarrow> error + cnum list" where
  "add_at_with ar i x buf =
     (if i < length buf then Inr (buf[i := radd ar (buf ! i) x]) else Inl IndexError)"

definition add_from_with :: "arith \<Rightarrow> nat \<Rightarrow> cnum list \<Rightarrow> cnum list \<Rightarrow> error + cnum list" where
  "add_from_with ar i xs buf =
     (if length (drop i buf) = length xs
      then Inr (take i buf @ map2 (radd ar) (drop i buf) xs)
      else Inl ValueError)"

definition update_walker_with ::
  "arith \<Rightarrow> ('l walker \<Rightarrow> 'l walker) \<Rightarrow> ('l walker \<Rightarrow> complex \<times> complex \<times> complex) \<Rightarrow> bool \<Rightarrow>
   cnum list \<Rightarrow> 'l walker \<Rightarrow> error + cnum list" where
  "update_walker_with ar gf le rdm_flag es w0 =
     (let w = gf w0; (E, T, V) = le w in
      ebind (add_at_with ar names_enumer (Fin (rmul ar (weight w) (creal E))) es) (\<lambda>es.
      ebind (add_at_with ar names_ekin (Fin (rmul ar (weight w) (creal T))) es) (\<lambda>es.
      ebind (add_at_with ar names_epot (Fin (rmul ar (weight w) (creal V))) es) (\<lambda>es.
      ebind (add_at_with ar names_weight (Fin (weight w)) es) (\<lambda>es.
      ebind (add_at_with ar names_edenom (Fin (weight w)) es) (\<lambda>es.
      if rdm_flag
      then add_from_with ar (names_time + 1)
             (map (\<lambda>g. Fin (rmul ar (weight w) (creal g))) (flatten (G w))) es
      else Inr es))))))"

definition update_walker_fp_with ::
  "arith \<Rightarrow> ('l walker \<Rightarrow> 'l walker) \<Rightarrow> ('l walker \<Rightarrow> complex \<times> complex \<times> complex) \<Rightarrow>
   cnum list \<Rightarrow> 'l walker \<Rightarrow> error + cnum list" where
  "update_walker_fp_with ar gf le es w0 =
     (let w = gf w0 in
      ebind (add_at_with ar names_enumer
               (Fin (rmul ar (rmul ar (weight w) (fst (le w))) (ot w))) es) (\<lambda>es.
      ebind (add_at_with ar names_weight (Fin (weight w)) es) (\<lambda>es.
      add_at_with ar names_edenom (Fin (rmul ar (weight w) (ot w))) es)))"

definition Mixed_update_with ::
  "arith \<Rightarrow> ('l walker \<Rightarrow> 'l walker) \<Rightarrow> ('l walker \<Rightarrow> complex \<times> complex \<times> complex) \<Rightarrow>
   Mixed \<Rightarrow> 'l walker list \<Rightarrow> bool \<Rightarrow> error + Mixed" where
  "Mixed_update_with ar gf le self walkers free_projection =
     ebind (update_loop
              (if \<not> free_projection then update_walker_with ar gf le (rdm self)
               else update_walker_fp_with ar gf le)
              (estimates self) walkers)
       (\<lambda>es. Inr (self\<lparr>estimates := es\<rparr>))"

text \<open>A call of \<^verbatim>\<open>update\<close> on one population followed by a call on another.\<close>

definition Mixed_update_then ::
  "arith \<Rightarrow> ('l walker \<Rightarrow> 'l walker) \<Rightarrow> ('l walker \<Rightarrow> complex \<times> complex \<times> complex) \<Rightarrow>
   Mixed \<Rightarrow> 'l walker list \<Rightarrow> 'l walker list \<Rightarrow> bool \<Rightarrow> error + Mixed" where
  "Mixed_update_then ar gf le self ws1 ws2 free_projection =
     ebind (Mixed_update_with ar gf le self ws1 free_projection)
       (\<lambda>self'. Mixed_update_with ar gf le self' ws2 free_projection)"

text \<open>
  The arithmetic of complex128: every real operation is rounded to the nearest number
  of 53 significant bits, a tie to the one with an even significand. A complex sum is
  rounded component by component, a complex product in each of its four products and
  two sums. Overflow and subnormal numbers are not modelled.
\<close>

definition round_even :: "real \<Rightarrow> int" where
  "round_even m =
     (let f = \<lfloor>m\<rfloor>; d = m - of_int f
      in if d < 1 / 2 then f else if 1 / 2 < d then f + 1 else if even f then f else f + 1)"

definition fl :: "real \<Rightarrow> real" where
  "fl x =
     (if x = 0 then 0
      else let u = 2 powr (of_int (\<lfloor>log 2 \<bar>x\<bar>\<rfloor> - 52))
           in of_int (round_even (x / u)) * u)"

definition fl_add :: "complex \<Rightarrow> complex \<Rightarrow> complex" where
  "fl_add a b = Complex (fl (Re a + Re b)) (fl (Im a + Im b))"

definition fl_mul :: "complex \<Rightarrow> complex \<Rightarrow> complex" where
  "fl_mul a b =
     Complex (fl (fl (Re a * Re b) - fl (Im a * Im b)))
             (fl (fl (Re a * Im b) + fl (Im a * Re b)))"

fun fl_cadd :: "cnum \<Rightarrow> cnum \<Rightarrow> cnum" where
  "fl_cadd (Fin a) (Fin b) = Fin (fl_add a b)"
| "fl_cadd _ _ = NonFinite"

definition ieee_arith :: arith where
  "ieee_arith = \<lparr>radd = fl_cadd, rmul = fl_mul\<rparr>"

text \<open>
  Three walkers of weights \<open>10\<^sup>1\<^sup>6\<close>, 1 and \<open>- 10\<^sup>1\<^sup>6\<close>, and a local energy of 1 for each.
\<close>

definition big_walker :: "mat walker" where
  "big_walker = example_walker\<lparr>weight := 10000000000000000\<rparr>"

definition unit_walker :: "mat walker" where
  "unit_walker = example_walker\<lparr>weight := 1\<rparr>"

definition negative_walker :: "mat walker" where
  "negative_walker = example_walker\<lparr>weight := - 10000000000000000\<rparr>"

definition unit_le :: "mat walker \<Rightarrow> complex \<times> complex \<times> complex" where
  "unit_le w = (1, 0, 0)"

section \<open>The local-energy kernel\<close>

text \<open>
  Indexing raises IndexError out of range. The indices the program uses here are never
  negative.
\<close>

definition item :: "'a list \<Rightarrow> nat \<Rightarrow> error + 'a" where
  "item xs i = (if i < length xs then Inr (xs ! i) else Inl IndexError)"

definition entry :: "mat \<Rightarrow> nat \<Rightarrow> nat \<Rightarrow> error + complex" where
  "entry A i j = ebind (item (rows A) i) (\<lambda>r. item r j)"

text \<open>Column slices \<^verbatim>\<open>A[:, :n]\<close> and \<^verbatim>\<open>A[:, n:]\<close>.\<close>

definition cols_to :: "nat \<Rightarrow> mat \<Rightarrow> mat" where
  "cols_to n A = Mat (min n (ncols A)) (map (take n) (rows A))"

definition cols_from :: "nat \<Rightarrow> mat \<Rightarrow> mat" where
  "cols_from n A = Mat (ncols A - n) (map (drop n) (rows A))"

text \<open>
  The system object is built outside of this file; it exposes the name of the
  Hamiltonian, the size of the basis, the number of up electrons, the one-body matrices
  of the two spins, the on-site interaction, the two-body tensor and the core energy.
\<close>

record system =
  name :: string
  nbasis :: nat
  nup :: nat
  T :: "mat list"
  U :: complex
  h2e :: "nat \<Rightarrow> nat \<Rightarrow> nat \<Rightarrow> nat \<Rightarrow> complex"
  ecore :: complex

text \<open>\<^verbatim>\<open>local_energy_hubbard\<close>.\<close>

definition local_energy_hubbard :: "system \<Rightarrow> mat list \<Rightarrow> error + complex \<times> complex \<times> complex" where
  "local_energy_hubbard sys g =
     ebind (item (T sys) 0) (\<lambda>T0. ebind (item g 0) (\<lambda>G0.
     ebind (elementwise (*) T0 G0) (\<lambda>a.
     ebind (item (T sys) 1) (\<lambda>T1. ebind (item g 1) (\<lambda>G1.
     ebind (elementwise (*) T1 G1) (\<lambda>b.
     ebind (mat_add a b) (\<lambda>s.
     let ke = sum_list (concat (rows s)) in
     ebind (fold (\<lambda>i acc. ebind acc (\<lambda>pe.
                    ebind (entry G0 i i) (\<lambda>x. ebind (entry G1 i i) (\<lambda>y.
                    Inr (pe + U sys * x * y)))))
              [0..<nbasis sys] (Inr 0)) (\<lambda>pe.
     Inr (ke + pe, ke, pe)))))))))"

text \<open>
  \<^verbatim>\<open>local_energy_generic\<close>. The sums of \<^verbatim>\<open>numpy.einsum\<close> run over the basis; the
  operands must be square matrices of the size of the basis.
\<close>

definition einsum_ij_ji :: "nat \<Rightarrow> mat \<Rightarrow> mat \<Rightarrow> complex" where
  "einsum_ij_ji n A B = (\<Sum>i\<leftarrow>[0..<n]. \<Sum>j\<leftarrow>[0..<n]. rows A ! i ! j * (rows B ! j ! i))"

definition einsum_pqrs_pr_qs ::
  "nat \<Rightarrow> (nat \<Rightarrow> nat \<Rightarrow> nat \<Rightarrow> nat \<Rightarrow> complex) \<Rightarrow> mat \<Rightarrow> mat \<Rightarrow> complex" where
  "einsum_pqrs_pr_qs n h A B =
     (\<Sum>p\<leftarrow>[0..<n]. \<Sum>q\<leftarrow>[0..<n]. \<Sum>r\<leftarrow>[0..<n]. \<Sum>s\<leftarrow>[0..<n].
        h p q r s * (rows A ! p ! r) * (rows B ! q ! s))"

definition einsum_pqrs_ps_qr ::
  "nat \<Rightarrow> (nat \<Rightarrow> nat \<Rightarrow> nat \<Rightarrow> nat \<Rightarrow> complex) \<Rightarrow> mat \<Rightarrow> mat \<Rightarrow> complex" where
  "einsum_pqrs_ps_qr n h A B =
     (\<Sum>p\<leftarrow>[0..<n]. \<Sum>q\<leftarrow>[0..<n]. \<Sum>r\<leftarrow>[0..<n]. \<Sum>s\<leftarrow>[0..<n].
        h p q r s * (rows A ! p ! s) * (rows B ! q ! r))"

definition square_of :: "nat \<Rightarrow> mat \<Rightarrow> bool" where
  "square_of n A = (wf_mat A \<and> shape A = (n, n))"

definition local_energy_generic :: "system \<Rightarrow> mat list \<Rightarrow> error + complex \<times> complex \<times> complex" where
  "local_energy_generic sys g =
     ebind (item (T sys) 0) (\<lambda>T0. ebind (item g 0) (\<lambda>G0.
     ebind (item (T sys) 1) (\<lambda>T1. ebind (item g 1) (\<lambda>G1.
     let n = nbasis sys in
     if \<not> (square_of n T0 \<and> square_of n G0 \<and> square_of n T1 \<and> square_of n G1)
     then Inl ValueError
     else
       let e1 = einsum_ij_ji n T0 G0 + einsum_ij_ji n T1 G1;
           euu = (1 / 2) * (einsum_pqrs_pr_qs n (h2e sys) G0 G0 - einsum_pqrs_ps_qr n (h2e sys) G0 G0);
           edd = (1 / 2) * (einsum_pqrs_pr_qs n (h2e sys) G1 G1 - einsum_pqrs_ps_qr n (h2e sys) G1 G1);
           eud = (1 / 2) * einsum_pqrs_pr_qs n (h2e sys) G0 G1;
           edu = (1 / 2) * einsum_pqrs_pr_qs n (h2e sys) G1 G0;
           e2 = euu + edd + eud + edu
       in Inr (e1 + e2 + ecore sys, e1 + ecore sys, e2)))))"

text \<open>
  \<^verbatim>\<open>local_energy\<close>. For a generalized Green's function of the Hubbard model it calls
  \<^verbatim>\<open>local_energy_ghf\<close> with two of its four arguments, which raises TypeError.
\<close>

definition local_energy :: "system \<Rightarrow> mat list \<Rightarrow> error + complex \<times> complex \<times> complex" where
  "local_energy sys g =
     (let ghf = ((case g of [] \<Rightarrow> 0 | m # _ \<Rightarrow> ncols m) = 2 * nbasis sys) in
      if name sys = ''Hubbard''
      then if ghf then Inl TypeError else local_energy_hubbard sys g
      else local_energy_generic sys g)"

section \<open>The back-propagation estimator\<close>

text \<open>A value of the input options: absent or \<^verbatim>\<open>None\<close>, a string, or a truth value.\<close>

datatype pyvalue = PyNone | PyStr string | PyBool bool

record BackPropagation =
  bp_nmax :: int
  bp_rdm :: bool
  bp_nreg :: nat
  bp_G :: "mat list"
  bp_estimates :: "cnum list"
  bp_global_estimates :: "cnum list"
  bp_nstblz :: int
  restore_weights :: pyvalue
  bp_output :: "cnum list H5EstimatorHelper option"
  bp_dm_output :: "cnum list H5EstimatorHelper option"

text \<open>
  \<^verbatim>\<open>BackPropagation.__init__\<close>. \<open>nback_prop\<close> and \<open>restore\<close> are the entries of the options
  (\<open>None\<close> when the key \<^verbatim>\<open>nback_prop\<close> is absent, and then the window is 0), \<open>trial_G\<close>
  is \<^verbatim>\<open>trial.G\<close>. On the root process the datasets get \<^verbatim>\<open>nsteps // nmax\<close> rows.
\<close>

definition BackPropagation_init ::
  "int option \<Rightarrow> bool \<Rightarrow> pyvalue \<Rightarrow> bool \<Rightarrow> int \<Rightarrow> int \<Rightarrow> mat list \<Rightarrow> error + BackPropagation" where
  "BackPropagation_init nback_prop rdm_flag restore is_root nsteps nstblz trial_G =
     (let nmax = (case nback_prop of None \<Rightarrow> 0 | Some n \<Rightarrow> n);
          n = 4;
          g = map (\<lambda>m. zeros (nrows m) (ncols m)) trial_G;
          size = length (flatten g)
      in
      if is_root \<and> nmax = 0 then Inl ZeroDivisionError
      else if is_root \<and> nsteps div nmax < 0 then Inl ValueError
      else Inr \<lparr>bp_nmax = nmax, bp_rdm = rdm_flag, bp_nreg = n, bp_G = g,
              bp_estimates = replicate (n + size) (Fin 0),
              bp_global_estimates = replicate (n + size) (Fin 0),
              bp_nstblz = nstblz, restore_weights = restore,
              bp_output =
                (if is_root
                 then Some \<lparr>store = replicate (nat (nsteps div nmax)) (replicate n (Fin 0)),
                            index = 0\<rparr>
                 else None),
              bp_dm_output =
                (if is_root \<and> rdm_flag
                 then Some \<lparr>store = replicate (nat (nsteps div nmax)) (replicate size (Fin 0)),
                            index = 0\<rparr>
                 else None)\<rparr>)"

text \<open>
  \<^verbatim>\<open>BackPropagation.calculate_weight_factor\<close>: the loop over the zipped weight and cosine
  factors of the block, from the factor \<^verbatim>\<open>1.0 + 0j\<close>.
\<close>

fun weight_factor_loop ::
  "pyvalue \<Rightarrow> cnum \<Rightarrow> (complex list \<times> complex list) list \<Rightarrow> error + cnum" where
  "weight_factor_loop rw factor [] = Inr factor"
| "weight_factor_loop rw factor ((w, c) # rest) =
     ebind (item w 0) (\<lambda>w0.
     let factor = cmul factor (Fin w0) in
     if rw = PyStr ''full''
     then ebind (item c 0) (\<lambda>c0. weight_factor_loop rw (cdiv factor (Fin c0)) rest)
     else weight_factor_loop rw factor rest)"

definition calculate_weight_factor :: "BackPropagation \<Rightarrow> 'l walker \<Rightarrow> error + cnum" where
  "calculate_weight_factor self w =
     (let (configs, cos_fac, weight_fac) = get_block (field_configs w)
      in weight_factor_loop (restore_weights self) (Fin 1) (zip weight_fac cos_fac))"

text \<open>
  \<^verbatim>\<open>G[i] = X\<close> for an array \<^verbatim>\<open>G\<close> of matrices: IndexError out of range, ValueError when
  the shape of \<^verbatim>\<open>X\<close> is not the shape of the slot.
\<close>

definition set_item :: "mat list \<Rightarrow> nat \<Rightarrow> mat \<Rightarrow> error + mat list" where
  "set_item g i X =
     (if length g \<le> i then Inl IndexError
      else if shape X \<noteq> shape (g ! i) then Inl ValueError
      else Inr (g[i := X]))"

text \<open>
  The functions of \<^verbatim>\<open>pauxy.propagation\<close> and the methods of the walker population that
  \<^verbatim>\<open>update_uhf\<close> calls are not part of the sources at hand: they are parameters.
\<close>

record 'l bp_externals =
  back_propagate :: "'l walker list \<Rightarrow> 'l walker list"
  copy_historic_wfn :: "'l walker list \<Rightarrow> 'l walker list"
  copy_bp_wfn :: "'l walker list \<Rightarrow> 'l walker list \<Rightarrow> 'l walker list"

text \<open>
  One iteration of the loop of \<^verbatim>\<open>update_uhf\<close>, on the state \<^verbatim>\<open>self.G\<close>,
  \<^verbatim>\<open>self.estimates\<close> and \<^verbatim>\<open>denominator\<close>.
\<close>

definition update_uhf_walker ::
  "(mat \<Rightarrow> error + mat) \<Rightarrow> system \<Rightarrow> BackPropagation \<Rightarrow>
   mat list \<times> cnum list \<times> cnum \<Rightarrow> 'l walker \<times> 'l walker \<Rightarrow>
   error + mat list \<times> cnum list \<times> cnum" where
  "update_uhf_walker linv sys self st pair =
     (let (g, es, denominator) = st; (wnm, wb) = pair in
      ebind (gab linv (cols_to (nup sys) (phi wb)) (cols_to (nup sys) (phi_old wnm))) (\<lambda>g0.
      ebind (set_item g 0 (transpose_mat g0)) (\<lambda>g.
      ebind (gab linv (cols_from (nup sys) (phi wb)) (cols_from (nup sys) (phi_old wnm))) (\<lambda>g1.
      ebind (set_item g 1 (transpose_mat g1)) (\<lambda>g.
      ebind (local_energy sys g) (\<lambda>(E, T, V).
      ebind (if restore_weights self \<noteq> PyNone
             then ebind (calculate_weight_factor self wnm)
                    (\<lambda>factor. Inr (cmul (Fin (weight wnm)) factor))
             else Inr (Fin (weight wnm))) (\<lambda>wt.
      let denominator = cadd denominator wt in
      ebind (add_from 1 (map (\<lambda>x. cmul wt (Fin x)) ([E, T, V] @ flatten g)) es) (\<lambda>es.
      Inr (g, es, denominator)))))))))"

fun update_uhf_loop ::
  "(mat \<Rightarrow> error + mat) \<Rightarrow> system \<Rightarrow> BackPropagation \<Rightarrow>
   mat list \<times> cnum list \<times> cnum \<Rightarrow> ('l walker \<times> 'l walker) list \<Rightarrow>
   error + mat list \<times> cnum list \<times> cnum" where
  "update_uhf_loop linv sys self st [] = Inr st"
| "update_uhf_loop linv sys self st (p # ps) =
     ebind (update_uhf_walker linv sys self st p) (\<lambda>st. update_uhf_loop linv sys self st ps)"

text \<open>
  \<^verbatim>\<open>BackPropagation.update_uhf\<close>. \<^verbatim>\<open>step % self.nmax\<close> raises ZeroDivisionError for a
  window of 0. The result is the estimator and the population.
\<close>

definition update_uhf ::
  "(mat \<Rightarrow> error + mat) \<Rightarrow> 'l bp_externals \<Rightarrow> BackPropagation \<Rightarrow> system \<Rightarrow>
   'l walker list \<Rightarrow> int \<Rightarrow> error + BackPropagation \<times> 'l walker list" where
  "update_uhf linv ext self sys walkers step =
     (if bp_nmax self = 0 then Inl ZeroDivisionError
      else if step mod bp_nmax self \<noteq> 0 then Inr (self, walkers)
      else
        let psi_bp = back_propagate ext walkers in
        ebind (update_uhf_loop linv sys self (bp_G self, bp_estimates self, Fin 0)
                 (zip walkers psi_bp)) (\<lambda>(g, es, denominator).
        ebind (add_at 0 denominator es) (\<lambda>es.
        Inr (self\<lparr>bp_G := g, bp_estimates := es\<rparr>,
             copy_bp_wfn ext (copy_historic_wfn ext walkers) psi_bp))))"

subsection \<open>A two-site example\<close>

text \<open>
  A Hubbard model of two sites with one electron of each spin, a walker whose states
  are the identity, with a window of two stored steps, and back-propagation estimators
  with a window of 0 and of 2. The external routines leave the population as it is.
\<close>

definition example_system :: system where
  "example_system =
     \<lparr>name = ''Hubbard'', nbasis = 2, nup = 1,
      T = [Mat 2 [[0, - 1], [- 1, 0]], Mat 2 [[0, - 1], [- 1, 0]]],
      U = 4, h2e = (\<lambda>p q r s. 0), ecore = 0\<rparr>"

definition example_bp_walker :: "mat walker" where
  "example_bp_walker =
     \<lparr>weight = 2, ot = 1, G = [], phi = Mat 2 [[1, 0], [0, 1]], phi_old = Mat 2 [[1, 0], [0, 1]],
      phi_init = Mat 2 [[1, 0], [0, 1]], phi_bp = Mat 2 [[1, 0], [0, 1]], weights = [1],
      field_configs =
        \<lparr>get_block = ([[1, 1], [1, - 1]], [[2], [4]], [[3], [5]]),
         get_superblock0 = [[1, 1], [1, - 1]]\<rparr>\<rparr>"

definition example_bp_ext :: "mat bp_externals" where
  "example_bp_ext =
     \<lparr>back_propagate = (\<lambda>ws. ws), copy_historic_wfn = (\<lambda>ws. ws),
      copy_bp_wfn = (\<lambda>ws bp. ws)\<rparr>"

definition example_bp :: "int \<Rightarrow> BackPropagation" where
  "example_bp n =
     \<lparr>bp_nmax = n, bp_rdm = False, bp_nreg = 4, bp_G = [zeros 2 2, zeros 2 2],
      bp_estimates = replicate 12 (Fin 0), bp_global_estimates = replicate 12 (Fin 0),
      bp_nstblz = 1, restore_weights = PyStr ''full'', bp_output = None,
      bp_dm_output = None\<rparr>"

section \<open>The imaginary-time Green's function\<close>

subsection \<open>Arrays of lower rank\<close>

text \<open>
  What indexing the first axis of a Green's-function array yields: a matrix when the
  array has three axes, a row when it has two; the product of two rows is a number.
\<close>

datatype arr = Sca complex | Vec "complex list" | Arr2 mat

definition mat_vec :: "mat \<Rightarrow> complex list \<Rightarrow> complex list" where
  "mat_vec A v = map (\<lambda>r. \<Sum>k\<leftarrow>[0..<ncols A]. r ! k * v ! k) (rows A)"

definition vec_mat :: "complex list \<Rightarrow> mat \<Rightarrow> complex list" where
  "vec_mat v A = map (\<lambda>j. \<Sum>k\<leftarrow>[0..<nrows A]. v ! k * (rows A ! k ! j)) [0..<ncols A]"

definition mat_scale :: "complex \<Rightarrow> mat \<Rightarrow> mat" where
  "mat_scale c A = Mat (ncols A) (map (map (\<lambda>x. c * x)) (rows A))"

text \<open>\<^verbatim>\<open>x.dot(y)\<close> for arrays of rank at most two.\<close>

fun arr_dot :: "arr \<Rightarrow> arr \<Rightarrow> error + arr" where
  "arr_dot (Arr2 A) (Arr2 B) = ebind (dot A B) (\<lambda>C. Inr (Arr2 C))"
| "arr_dot (Arr2 A) (Vec v) =
     (if ncols A = length v then Inr (Vec (mat_vec A v)) else Inl ValueError)"
| "arr_dot (Vec v) (Arr2 A) =
     (if length v = nrows A then Inr (Vec (vec_mat v A)) else Inl ValueError)"
| "arr_dot (Vec v) (Vec u) =
     (if length v = length u then Inr (Sca (\<Sum>k\<leftarrow>[0..<length v]. v ! k * u ! k))
      else Inl ValueError)"
| "arr_dot (Sca c) (Sca d) = Inr (Sca (c * d))"
| "arr_dot (Sca c) (Vec v) = Inr (Vec (map (\<lambda>x. c * x) v))"
| "arr_dot (Vec v) (Sca c) = Inr (Vec (map (\<lambda>x. x * c) v))"
| "arr_dot (Sca c) (Arr2 A) = Inr (Arr2 (mat_scale c A))"
| "arr_dot (Arr2 A) (Sca c) = Inr (Arr2 (mat_scale c A))"

fun arr_shape :: "arr \<Rightarrow> nat list" where
  "arr_shape (Sca c) = []"
| "arr_shape (Vec v) = [length v]"
| "arr_shape (Arr2 A) = [nrows A, ncols A]"

text \<open>
  \<^verbatim>\<open>G[i] = x\<close> on an array indexed along its first axis: IndexError out of range,
  ValueError when \<^verbatim>\<open>x\<close> has not the shape of the slot.
\<close>

definition set_slot :: "arr list \<Rightarrow> nat \<Rightarrow> arr \<Rightarrow> error + arr list" where
  "set_slot g i x =
     (if length g \<le> i then Inl IndexError
      else if arr_shape x \<noteq> arr_shape (g ! i) then Inl ValueError
      else Inr (g[i := x]))"

subsection \<open>The buffer and the accumulation\<close>

text \<open>
  The buffer \<^verbatim>\<open>spgf\<close>: a list of time slices, each of them indexed by the spin, then by
  the ordering (0 greater, 1 lesser), a matrix over the basis.
\<close>

type_synonym slice = "mat list list"







subsection \<open>The Green's functions of a window\<close>

text \<open>
  \<^verbatim>\<open>ITCF.initial_greens_function_uhf\<close>; \<open>I\<close> is \<^verbatim>\<open>self.I\<close>. The result is the pair of
  \<^verbatim>\<open>numpy.array([Ggr_up, Ggr_down])\<close> and \<^verbatim>\<open>numpy.array([Gls_up, Gls_down])\<close>.
\<close>

definition initial_greens_function_uhf ::
  "(mat \<Rightarrow> error + mat) \<Rightarrow> mat \<Rightarrow> mat \<Rightarrow> mat \<Rightarrow> nat \<Rightarrow> complex list \<Rightarrow>
   error + arr list \<times> arr list" where
  "initial_greens_function_uhf linv I A B n_up wts =
     ebind (gab linv (cols_to n_up A) (cols_to n_up B)) (\<lambda>g_up.
     ebind (mat_sub I g_up) (\<lambda>Ggr_up.
     ebind (gab linv (cols_from n_up A) (cols_from n_up B)) (\<lambda>g_down.
     ebind (mat_sub I g_down) (\<lambda>Ggr_down.
     ebind (mat_sub I Ggr_up) (\<lambda>Gls_up.
     ebind (mat_sub I Ggr_down) (\<lambda>Gls_down.
     Inr ([Arr2 Ggr_up, Arr2 Ggr_down], [Arr2 Gls_up, Arr2 Gls_down])))))))"

text \<open>
  \<^verbatim>\<open>construct_multi_ghf_gab\<close>, called without \<^verbatim>\<open>Gi\<close> and \<^verbatim>\<open>overlaps\<close>: for every
  determinant of the bra, its Green's function and its overlap \<^verbatim>\<open>1.0 / det(inv_O)\<close>.
  \<^verbatim>\<open>scipy.linalg.det\<close> is the parameter \<open>ldet\<close>.
\<close>

fun construct_multi_ghf_gab ::
  "(mat \<Rightarrow> error + mat) \<Rightarrow> (mat \<Rightarrow> complex) \<Rightarrow> mat list \<Rightarrow> mat \<Rightarrow>
   error + mat list \<times> complex list" where
  "construct_multi_ghf_gab linv ldet [] B = Inr ([], [])"
| "construct_multi_ghf_gab linv ldet (Aix # A) B =
     ebind (dot (transpose_mat (conj_mat Aix)) B) (\<lambda>ovlp.
     ebind (linv ovlp) (\<lambda>inv_O.
     ebind (dot inv_O (transpose_mat (conj_mat Aix))) (\<lambda>X.
     ebind (dot B X) (\<lambda>Gix.
     if ldet inv_O = 0 then Inl NotFinite
     else
       ebind (construct_multi_ghf_gab linv ldet A B) (\<lambda>(Gi, overlaps).
       Inr (Gix # Gi, (1 / ldet inv_O) # overlaps))))))"

text \<open>
  Python's \<^verbatim>\<open>max\<close> of a sequence of numpy numbers: the first one that no later one
  exceeds, ValueError on an empty sequence. The comparison \<^verbatim>\<open>>\<close> of two numpy numbers
  is the parameter \<open>gt\<close>.
\<close>

definition pymax :: "(complex \<Rightarrow> complex \<Rightarrow> bool) \<Rightarrow> complex list \<Rightarrow> error + complex" where
  "pymax gt xs =
     (case xs of [] \<Rightarrow> Inl ValueError
      | x # rest \<Rightarrow> Inr (fold (\<lambda>y m. if gt y m then y else m) rest x))"

definition vec_map2 ::
  "(complex \<Rightarrow> complex \<Rightarrow> complex) \<Rightarrow> complex list \<Rightarrow> complex list \<Rightarrow> error + complex list" where
  "vec_map2 f xs ys = (if length xs = length ys then Inr (map2 f xs ys) else Inl ValueError)"

text \<open>
  \<^verbatim>\<open>numpy.einsum('i,ijk->jk', w, Gi)\<close>: the weighted sum of the matrices, which all
  have the shape of the first one.
\<close>

definition einsum_i_ijk :: "complex list \<Rightarrow> mat list \<Rightarrow> error + mat" where
  "einsum_i_ijk ws Gi =
     (if length ws \<noteq> length Gi then Inl ValueError
      else case Gi of
        [] \<Rightarrow> Inl ValueError
      | g # _ \<Rightarrow>
          Inr (Mat (ncols g)
                 (map (\<lambda>j. map (\<lambda>k. \<Sum>i\<leftarrow>[0..<length ws]. ws ! i * (rows (Gi ! i) ! j ! k))
                                [0..<ncols g])
                    [0..<nrows g])))"

text \<open>\<^verbatim>\<open>construct_multi_ghf_gab_back_prop\<close>.\<close>

definition construct_multi_ghf_gab_back_prop ::
  "(mat \<Rightarrow> error + mat) \<Rightarrow> (mat \<Rightarrow> complex) \<Rightarrow> (complex \<Rightarrow> complex \<Rightarrow> bool) \<Rightarrow>
   mat list \<Rightarrow> mat \<Rightarrow> complex list \<Rightarrow> complex list \<Rightarrow> error + mat" where
  "construct_multi_ghf_gab_back_prop linv ldet gt A B coeffs bp_weights =
     ebind (construct_multi_ghf_gab linv ldet A B) (\<lambda>(Gi, overlaps).
     ebind (pymax gt bp_weights) (\<lambda>m1.
     ebind (pymax gt overlaps) (\<lambda>m2.
     ebind (pymax gt [m1, m2]) (\<lambda>scale.
     ebind (vec_map2 (*) bp_weights coeffs) (\<lambda>bc.
     ebind (vec_map2 (*) bc overlaps) (\<lambda>bco.
     if scale = 0 then Inl NotFinite
     else
       let full_weights = map (\<lambda>x. x / scale) bco;
           denom = sum_list full_weights
       in
       ebind (einsum_i_ijk full_weights Gi) (\<lambda>S.
       if denom = 0 then Inl NotFinite else Inr (mat_scale (1 / denom) S))))))))"

text \<open>\<^verbatim>\<open>ITCF.initial_greens_function_ghf\<close>; \<open>coeffs\<close> is \<^verbatim>\<open>trial.coeffs\<close>.\<close>

definition initial_greens_function_ghf ::
  "(mat \<Rightarrow> error + mat) \<Rightarrow> (mat \<Rightarrow> complex) \<Rightarrow> (complex \<Rightarrow> complex \<Rightarrow> bool) \<Rightarrow>
   mat \<Rightarrow> complex list \<Rightarrow> mat list \<Rightarrow> mat \<Rightarrow> nat \<Rightarrow> complex list \<Rightarrow> error + mat \<times> mat" where
  "initial_greens_function_ghf linv ldet gt I coeffs A B n_up wts =
     ebind (construct_multi_ghf_gab_back_prop linv ldet gt A B coeffs wts) (\<lambda>GAB.
     ebind (mat_sub I GAB) (\<lambda>Ggr.
     ebind (mat_sub I Ggr) (\<lambda>Gls.
     Inr (Ggr, Gls))))"

subsection \<open>One step in imaginary time\<close>

text \<open>
  \<^verbatim>\<open>ITCF.increment_tau_uhf_unstable\<close>. The arrays \<^verbatim>\<open>Ggr\<close> and \<^verbatim>\<open>Gls\<close> are updated in
  place, one statement after the other, and returned.
\<close>

definition increment_tau_uhf_unstable ::
  "(mat \<Rightarrow> error + mat) \<Rightarrow> arr list \<Rightarrow> arr list \<Rightarrow> mat list \<Rightarrow> error + arr list \<times> arr list" where
  "increment_tau_uhf_unstable linv Ggr Gls B =
     ebind (item B 0) (\<lambda>B0. ebind (item Ggr 0) (\<lambda>g.
     ebind (arr_dot (Arr2 B0) g) (\<lambda>x. ebind (set_slot Ggr 0 x) (\<lambda>Ggr.
     ebind (item B 1) (\<lambda>B1. ebind (item Ggr 1) (\<lambda>g.
     ebind (arr_dot (Arr2 B1) g) (\<lambda>x. ebind (set_slot Ggr 1 x) (\<lambda>Ggr.
     ebind (item Gls 0) (\<lambda>g. ebind (item B 0) (\<lambda>B0. ebind (linv B0) (\<lambda>iB0.
     ebind (arr_dot g (Arr2 iB0)) (\<lambda>x. ebind (set_slot Gls 0 x) (\<lambda>Gls.
     ebind (item Gls 1) (\<lambda>g. ebind (item B 1) (\<lambda>B1. ebind (linv B1) (\<lambda>iB1.
     ebind (arr_dot g (Arr2 iB1)) (\<lambda>x. ebind (set_slot Gls 1 x) (\<lambda>Gls.
     Inr (Ggr, Gls)))))))))))))))))))"

text \<open>
  \<^verbatim>\<open>ITCF.increment_tau_uhf_stable\<close>. Its last statement reads \<^verbatim>\<open>Gls[0]\<close>, which the
  statement before has just assigned.
\<close>

definition increment_tau_uhf_stable ::
  "(mat \<Rightarrow> error + mat) \<Rightarrow> arr list \<Rightarrow> arr list \<Rightarrow> mat list \<Rightarrow> arr list \<Rightarrow> arr list \<Rightarrow>
   error + arr list \<times> arr list" where
  "increment_tau_uhf_stable linv Ggr Gls B Gnn_gr Gnn_ls =
     ebind (item B 0) (\<lambda>B0. ebind (item Gnn_gr 0) (\<lambda>n.
     ebind (arr_dot (Arr2 B0) n) (\<lambda>bn. ebind (item Ggr 0) (\<lambda>g.
     ebind (arr_dot bn g) (\<lambda>x. ebind (set_slot Ggr 0 x) (\<lambda>Ggr.
     ebind (item B 1) (\<lambda>B1. ebind (item Gnn_gr 1) (\<lambda>n.
     ebind (arr_dot (Arr2 B1) n) (\<lambda>bn. ebind (item Ggr 1) (\<lambda>g.
     ebind (arr_dot bn g) (\<lambda>x. ebind (set_slot Ggr 1 x) (\<lambda>Ggr.
     ebind (item Gls 0) (\<lambda>g. ebind (item Gnn_ls 0) (\<lambda>n.
     ebind (item B 0) (\<lambda>B0. ebind (linv B0) (\<lambda>iB0.
     ebind (arr_dot n (Arr2 iB0)) (\<lambda>ni. ebind (arr_dot g ni) (\<lambda>x.
     ebind (set_slot Gls 0 x) (\<lambda>Gls.
     ebind (item Gls 0) (\<lambda>g. ebind (item Gnn_ls 1) (\<lambda>n.
     ebind (item B 1) (\<lambda>B1. ebind (linv B1) (\<lambda>iB1.
     ebind (arr_dot n (Arr2 iB1)) (\<lambda>ni. ebind (arr_dot g ni) (\<lambda>x.
     ebind (set_slot Gls 1 x) (\<lambda>Gls.
     Inr (Ggr, Gls)))))))))))))))))))))))))))"



subsection \<open>The estimator and its output\<close>

text \<open>
  The option \<^verbatim>\<open>mode\<close> is a string or a list of pairs of basis indices. A row of an
  output dataset is the whole buffer, or for every slice, spin and ordering the selected
  entries of the matrix.
\<close>

datatype mode = ModeStr string | ModeList "(nat \<times> nat) list"

datatype itcf_row = RowFull "slice list" | RowSelected "complex list list list list"

record ITCF =
  stable :: bool
  itcf_mode :: mode
  itcf_nmax :: int
  nprop_tot :: int
  itcf_nstblz :: int
  kspace :: bool
  spgf :: "slice list"
  spgf_global :: "slice list"
  itcf_I :: mat
  rspace_unit :: "itcf_row H5EstimatorHelper option"
  kspace_unit :: "itcf_row H5EstimatorHelper option"

definition zero_spgf :: "nat \<Rightarrow> nat \<Rightarrow> slice list" where
  "zero_spgf n M = replicate n (replicate 2 (replicate 2 (zeros M M)))"

text \<open>
  \<^verbatim>\<open>ITCF.__init__\<close>. \<open>nmax\<close> is the value of \<^verbatim>\<open>int(self.tmax/qmc.dt)\<close>, a floating-point
  computation that is not modelled, \<open>n_I\<close> the size of \<^verbatim>\<open>self.I\<close> (a dimension of
  \<^verbatim>\<open>trial.psi\<close>, which one depends on the representation). On the root process the
  datasets get \<^verbatim>\<open>nsteps // nmax\<close> rows, of the shape the mode asks for.
\<close>

definition ITCF_init ::
  "bool \<Rightarrow> mode \<Rightarrow> int \<Rightarrow> int \<Rightarrow> int \<Rightarrow> bool \<Rightarrow> bool \<Rightarrow> int \<Rightarrow> nat \<Rightarrow> nat \<Rightarrow> error + ITCF" where
  "ITCF_init stable_flag mode_opt nmax nbp nstblz kspace_flag is_root nsteps M n_I =
     (if nmax + 1 < 0 then Inl ValueError
      else if is_root \<and> nmax = 0 then Inl ZeroDivisionError
      else if is_root \<and> nsteps div nmax < 0 then Inl ValueError
      else
        let buf = zero_spgf (nat (nmax + 1)) M;
            width = (case mode_opt of ModeList l \<Rightarrow> length l | ModeStr s \<Rightarrow>
                       if s = ''diagonal'' then M else length s);
            row = (if mode_opt = ModeStr ''full'' then RowFull buf
                   else RowSelected (replicate (nat (nmax + 1))
                          (replicate 2 (replicate 2 (replicate width 0)))));
            unit = \<lparr>store = replicate (nat (nsteps div nmax)) row, index = 0\<rparr>
        in Inr \<lparr>stable = stable_flag, itcf_mode = mode_opt, itcf_nmax = nmax,
                nprop_tot = nmax + nbp, itcf_nstblz = nstblz, kspace = kspace_flag,
                spgf = buf, spgf_global = buf, itcf_I = identity n_I,
                rspace_unit = (if is_root then Some unit else None),
                kspace_unit = (if is_root \<and> kspace_flag then Some unit else None)\<rparr>)"

text \<open>\<^verbatim>\<open>spgf.diagonal(axis1=3, axis2=4)\<close> on one matrix of the buffer.\<close>

definition diagonal :: "mat \<Rightarrow> complex list" where
  "diagonal A = map (\<lambda>i. rows A ! i ! i) [0..<min (nrows A) (ncols A)]"

text \<open>
  \<^verbatim>\<open>ITCF.to_file\<close>. In its last branch the list comprehension evaluates \<^verbatim>\<open>g[mode]\<close> for
  every slice \<^verbatim>\<open>g\<close>; no variable \<^verbatim>\<open>mode\<close> is defined in the method, in the module or
  among the builtins, so the first slice raises NameError.
\<close>

definition to_file ::
  "ITCF \<Rightarrow> itcf_row H5EstimatorHelper \<Rightarrow> slice list \<Rightarrow> error + itcf_row H5EstimatorHelper" where
  "to_file self grp buf =
     (if itcf_mode self = ModeStr ''full'' then push grp (RowFull buf)
      else if itcf_mode self = ModeStr ''diagonal''
      then push grp (RowSelected (map (map (map diagonal)) buf))
      else case buf of
             [] \<Rightarrow> push grp (RowSelected [])
           | g # _ \<Rightarrow> Inl NameError)"

text \<open>
  Modelled from the spec: what the output-mode contract asks of an explicit list of
  index pairs, which the code does not reach: for every slice, spin and ordering, the
  entries of the matrix at the pairs of the list, in the order of the list.
\<close>

definition select_elements :: "(nat \<times> nat) list \<Rightarrow> slice list \<Rightarrow> complex list list list list" where
  "select_elements l buf = map (map (map (\<lambda>m. map (\<lambda>(i, j). rows m ! i ! j) l))) buf"

subsection \<open>The window\<close>

text \<open>
  The operations the constructor selects from the representation of the trial state and
  from the stabilization flag. \<open>'l\<close> is the type of a left state, \<open>'g\<close> of a Green's
  function, \<open>'b\<close> of a propagator matrix. The functions of \<^verbatim>\<open>pauxy.propagation\<close> and
  \<^verbatim>\<open>pauxy.utils\<close> and the method \<^verbatim>\<open>copy_init_wfn\<close> of the population are not part of the
  sources at hand: \<open>back_propagate_single\<close> returns the left state and the weights it
  has rewritten in place and, asked to store, the list of the intermediate left states;
  \<open>propagate_single\<close> returns the state it has rewritten in place; \<open>reortho\<close> returns
  the orthonormalized matrix and the triangular factor. \<open>identity_g\<close> is
  \<^verbatim>\<open>numpy.identity(n)\<close> as the operations on Green's functions index it.
\<close>

record ('l, 'g, 'b) itcf_ops =
  initial_greens_function :: "'l \<Rightarrow> mat \<Rightarrow> nat \<Rightarrow> complex list \<Rightarrow> error + 'g \<times> 'g"
  accumulate :: "nat \<Rightarrow> complex \<Rightarrow> 'g \<Rightarrow> 'g \<Rightarrow> nat \<Rightarrow> slice list \<Rightarrow> error + slice list"
  increment_tau :: "'g \<Rightarrow> 'g \<Rightarrow> 'b \<Rightarrow> ('g \<times> 'g) option \<Rightarrow> error + 'g \<times> 'g"
  identity_g :: "nat \<Rightarrow> 'g"
  back_propagate_single :: "'l \<Rightarrow> config list \<Rightarrow> complex list \<Rightarrow> bool \<Rightarrow> 'l \<times> complex list \<times> 'l list"
  construct_propagator_matrix :: "config \<Rightarrow> 'b"
  propagate_single :: "mat \<Rightarrow> 'b \<Rightarrow> mat"
  reortho :: "mat \<Rightarrow> mat \<times> mat"
  copy_init_wfn :: "'l walker list \<Rightarrow> 'l walker list"




text \<open>
  The inner loop of \<^verbatim>\<open>calculate_spgf_unstable\<close> over the configurations, from the
  counter \<open>ic\<close>, on the state \<^verbatim>\<open>Ggr\<close>, \<^verbatim>\<open>Gls\<close> and the buffer.
\<close>

fun unstable_configs ::
  "('l, 'g, 'b) itcf_ops \<Rightarrow> nat \<Rightarrow> complex \<Rightarrow> nat \<Rightarrow> 'g \<times> 'g \<Rightarrow> slice list \<Rightarrow> config list \<Rightarrow>
   error + slice list" where
  "unstable_configs ops M wt ic Gs buf [] = Inr buf"
| "unstable_configs ops M wt ic Gs buf (c # cs) =
     (let B = construct_propagator_matrix ops c in
      ebind (increment_tau ops (fst Gs) (snd Gs) B None) (\<lambda>Gs.
      ebind (accumulate ops (ic + 1) wt (fst Gs) (snd Gs) M buf) (\<lambda>buf.
      unstable_configs ops M wt (ic + 1) Gs buf cs)))"

text \<open>The body of the loop of \<^verbatim>\<open>calculate_spgf_unstable\<close> over the walkers.\<close>

definition unstable_walker ::
  "('l, 'g, 'b) itcf_ops \<Rightarrow> system \<Rightarrow> slice list \<Rightarrow> 'l walker \<Rightarrow> error + slice list \<times> 'l walker" where
  "unstable_walker ops sys buf w =
     (let configs = get_superblock0 (field_configs w);
          (left, wts, stored) = back_propagate_single ops (phi_bp w) configs (weights w) False;
          w = w\<lparr>phi_bp := left, weights := wts\<rparr>
      in
      ebind (initial_greens_function ops (phi_bp w) (phi_init w) (nup sys) (weights w)) (\<lambda>Gs.
      ebind (accumulate ops 0 (weight w) (fst Gs) (snd Gs) (nbasis sys) buf) (\<lambda>buf.
      ebind (unstable_configs ops (nbasis sys) (weight w) 0 Gs buf configs) (\<lambda>buf.
      Inr (buf, w)))))"

fun walkers_loop ::
  "(slice list \<Rightarrow> 'l walker \<Rightarrow> error + slice list \<times> 'l walker) \<Rightarrow> slice list \<Rightarrow>
   'l walker list \<Rightarrow> error + slice list \<times> 'l walker list" where
  "walkers_loop f buf [] = Inr (buf, [])"
| "walkers_loop f buf (w # ws) =
     ebind (f buf w) (\<lambda>(buf, w).
     ebind (walkers_loop f buf ws) (\<lambda>(buf, ws). Inr (buf, w # ws)))"

text \<open>
  \<^verbatim>\<open>self.spgf = self.spgf / denom\<close>: a total weight of 0 would fill the buffer with
  non-finite values.
\<close>

definition normalise_spgf :: "complex \<Rightarrow> slice list \<Rightarrow> error + slice list" where
  "normalise_spgf denom buf =
     (if denom = 0 then Inl NotFinite
      else Inr (map (map (map (\<lambda>m. Mat (ncols m) (map (map (\<lambda>x. x / denom)) (rows m))))) buf))"

text \<open>\<^verbatim>\<open>ITCF.calculate_spgf_unstable\<close>. The result is the estimator and the population.\<close>

definition calculate_spgf_unstable ::
  "('l, 'g, 'b) itcf_ops \<Rightarrow> ITCF \<Rightarrow> system \<Rightarrow> 'l walker list \<Rightarrow> error + ITCF \<times> 'l walker list" where
  "calculate_spgf_unstable ops self sys walkers =
     (let denom = sum_list (map weight walkers) in
      ebind (walkers_loop (unstable_walker ops sys) (spgf self) walkers) (\<lambda>(buf, walkers).
      ebind (normalise_spgf denom buf) (\<lambda>buf.
      Inr (self\<lparr>spgf := buf\<rparr>, copy_init_wfn ops walkers))))"

text \<open>
  Python's \<^verbatim>\<open>xs[i]\<close> for an integer that may be negative, and the assignments
  \<^verbatim>\<open>phi[:, :n] = Q\<close> and \<^verbatim>\<open>phi[:, n:] = Q\<close>.
\<close>

definition py_index :: "'a list \<Rightarrow> int \<Rightarrow> error + 'a" where
  "py_index xs i =
     (let n = int (length xs); j = (if i < 0 then n + i else i)
      in if 0 \<le> j \<and> j < n then Inr (xs ! nat j) else Inl IndexError)"

definition set_cols_to :: "nat \<Rightarrow> mat \<Rightarrow> mat \<Rightarrow> error + mat" where
  "set_cols_to n Q A =
     (if shape Q = shape (cols_to n A)
      then Inr (Mat (ncols A) (map2 (\<lambda>q r. q @ drop n r) (rows Q) (rows A)))
      else Inl ValueError)"

definition set_cols_from :: "nat \<Rightarrow> mat \<Rightarrow> mat \<Rightarrow> error + mat" where
  "set_cols_from n Q A =
     (if shape Q = shape (cols_from n A)
      then Inr (Mat (ncols A) (map2 (\<lambda>q r. take n r @ q) (rows Q) (rows A)))
      else Inl ValueError)"

text \<open>
  The inner loop of \<^verbatim>\<open>calculate_spgf_stable\<close>, on the state \<^verbatim>\<open>Ggr\<close>, \<^verbatim>\<open>Gls\<close>, the
  equal-time Green's functions, the buffer and \<^verbatim>\<open>w.phi_init\<close>.
\<close>

fun stable_configs ::
  "('l, 'g, 'b) itcf_ops \<Rightarrow> ITCF \<Rightarrow> system \<Rightarrow> complex \<Rightarrow> complex list \<Rightarrow> 'l list \<Rightarrow> nat \<Rightarrow>
   ('g \<times> 'g) \<times> ('g \<times> 'g) \<times> slice list \<times> mat \<Rightarrow> config list \<Rightarrow>
   error + ('g \<times> 'g) \<times> ('g \<times> 'g) \<times> slice list \<times> mat" where
  "stable_configs ops self sys wt wts psi_Ls ic st [] = Inr st"
| "stable_configs ops self sys wt wts psi_Ls ic (Gs, Gnn, buf, phi_i) (c # cs) =
     (let B = construct_propagator_matrix ops c in
      ebind (increment_tau ops (fst Gs) (snd Gs) B (Some Gnn)) (\<lambda>Gs.
      ebind (accumulate ops (ic + 1) wt (fst Gs) (snd Gs) (nbasis sys) buf) (\<lambda>buf.
      ebind (py_index psi_Ls (int (length psi_Ls) - int ic - 1)) (\<lambda>L.
      let phi_i = propagate_single ops phi_i B in
      ebind (if ic \<noteq> 0
             then if itcf_nstblz self = 0 then Inl ZeroDivisionError
                  else if int ic mod itcf_nstblz self = 0
                  then ebind (set_cols_to (nup sys) (fst (reortho ops (cols_to (nup sys) phi_i))) phi_i)
                         (\<lambda>phi_i.
                          set_cols_from (nup sys) (fst (reortho ops (cols_from (nup sys) phi_i))) phi_i)
                  else Inr phi_i
             else Inr phi_i) (\<lambda>phi_i.
      ebind (initial_greens_function ops L phi_i (nup sys) wts) (\<lambda>Gnn.
      stable_configs ops self sys wt wts psi_Ls (ic + 1) (Gs, Gnn, buf, phi_i) cs))))))"

text \<open>The body of the loop of \<^verbatim>\<open>calculate_spgf_stable\<close> over the walkers.\<close>

definition stable_walker ::
  "('l, 'g, 'b) itcf_ops \<Rightarrow> ITCF \<Rightarrow> system \<Rightarrow> slice list \<Rightarrow> 'l walker \<Rightarrow>
   error + slice list \<times> 'l walker" where
  "stable_walker ops self sys buf w =
     (let Ggr = identity_g ops (nrows (itcf_I self));
          Gls = identity_g ops (nrows (itcf_I self));
          configs = get_superblock0 (field_configs w);
          (left, wts, psi_Ls) = back_propagate_single ops (phi_bp w) configs (weights w) True;
          w = w\<lparr>phi_bp := left, weights := wts\<rparr>
      in
      ebind (initial_greens_function ops (phi_bp w) (phi_init w) (nup sys) (weights w)) (\<lambda>Gnn.
      ebind (accumulate ops 0 (weight w) (fst Gnn) (snd Gnn) (nbasis sys) buf) (\<lambda>buf.
      ebind (stable_configs ops self sys (weight w) (weights w) psi_Ls 0
               ((Ggr, Gls), Gnn, buf, phi_init w) configs) (\<lambda>(Gs, Gnn, buf, phi_i).
      Inr (buf, w\<lparr>phi_init := phi_i\<rparr>)))))"

text \<open>\<^verbatim>\<open>ITCF.calculate_spgf_stable\<close>.\<close>

definition calculate_spgf_stable ::
  "('l, 'g, 'b) itcf_ops \<Rightarrow> ITCF \<Rightarrow> system \<Rightarrow> 'l walker list \<Rightarrow> error + ITCF \<times> 'l walker list" where
  "calculate_spgf_stable ops self sys walkers =
     (let denom = sum_list (map weight walkers) in
      ebind (walkers_loop (stable_walker ops self sys) (spgf self) walkers) (\<lambda>(buf, walkers).
      ebind (normalise_spgf denom buf) (\<lambda>buf.
      Inr (self\<lparr>spgf := buf\<rparr>, copy_init_wfn ops walkers))))"

text \<open>
  \<^verbatim>\<open>ITCF.update\<close>: the window fires when the step is a multiple of its length, with the
  algorithm the constructor has selected.
\<close>

definition ITCF_update ::
  "('l, 'g, 'b) itcf_ops \<Rightarrow> ITCF \<Rightarrow> system \<Rightarrow> 'l walker list \<Rightarrow> int \<Rightarrow>
   error + ITCF \<times> 'l walker list" where
  "ITCF_update ops self sys walkers step =
     (if nprop_tot self = 0 then Inl ZeroDivisionError
      else if step mod nprop_tot self = 0
      then (if stable self then calculate_spgf_stable ops self sys walkers
            else calculate_spgf_unstable ops self sys walkers)
      else Inr (self, walkers))"

text \<open>\<^verbatim>\<open>ITCF.zero\<close>.\<close>

definition ITCF_zero :: "ITCF \<Rightarrow> ITCF" where
  "ITCF_zero self =
     self\<lparr>spgf := map (map (map (\<lambda>m. zeros (nrows m) (ncols m)))) (spgf self),
          spgf_global := map (map (map (\<lambda>m. zeros (nrows m) (ncols m)))) (spgf_global self)\<rparr>"

subsection \<open>A two-site window\<close>


definition example_itcf :: "bool \<Rightarrow> mode \<Rightarrow> ITCF" where
  "example_itcf stable_flag mode_opt =
     \<lparr>stable = stable_flag, itcf_mode = mode_opt, itcf_nmax = 2, nprop_tot = 4,
      itcf_nstblz = 1, kspace = False, spgf = zero_spgf 3 2, spgf_global = zero_spgf 3 2,
      itcf_I = identity 2,
      rspace_unit = Some \<lparr>store = replicate 2 (RowFull (zero_spgf 3 2)), index = 0\<rparr>,
      kspace_unit = None\<rparr>"

text \<open>Green's functions of two sites whose two spin components are the identity.\<close>

definition example_G :: "arr list" where
  "example_G = [Arr2 (identity 2), Arr2 (identity 2)]"

definition example_G_up2 :: "arr list" where
  "example_G_up2 = [Arr2 (Mat 2 [[2, 0], [0, 2]]), Arr2 (identity 2)]"

text \<open>
  For the generalized representation: the determinant of a matrix of one or two rows by
  the closed formula (what \<^verbatim>\<open>scipy.linalg.det\<close> returns on these shapes up to rounding),
  and the comparison of two numbers by their real parts.
\<close>

definition small_det :: "mat \<Rightarrow> complex" where
  "small_det A =
     (case rows A of
        [[a]] \<Rightarrow> a
      | [[a, b], [c, d]] \<Rightarrow> a * d - b * c
      | _ \<Rightarrow> 1)"

definition example_gt :: "complex \<Rightarrow> complex \<Rightarrow> bool" where
  "example_gt x y = (Re y < Re x)"








subsection \<open>Sums of Green's functions\<close>

text \<open>
  \<^verbatim>\<open>x + y\<close> for two arrays of one shape (broadcasting is not modelled), and the sum of
  the greater and the lesser Green's function of one spin channel.
\<close>

fun arr_add :: "arr \<Rightarrow> arr \<Rightarrow> error + arr" where
  "arr_add (Arr2 A) (Arr2 B) = ebind (mat_add A B) (\<lambda>C. Inr (Arr2 C))"
| "arr_add (Vec v) (Vec u) = ebind (vec_map2 (+) v u) (\<lambda>w. Inr (Vec w))"
| "arr_add (Sca c) (Sca d) = Inr (Sca (c + d))"
| "arr_add _ _ = Inl ValueError"

definition channel_sum :: "arr list \<Rightarrow> arr list \<Rightarrow> nat \<Rightarrow> error + arr" where
  "channel_sum Ggr Gls s = ebind (item Ggr s) (\<lambda>g. ebind (item Gls s) (\<lambda>l. arr_add g l))"

subsection \<open>The equal-time Green's function of a window, computed directly\<close>






section \<open>Properties of the Green's-function kernel\<close>

lemma ebind_Inl [simp]: "ebind (Inl e) f = Inl e"
  by (simp add: ebind_def)

lemma ebind_Inr [simp]: "ebind (Inr x) f = f x"
  by (simp add: ebind_def)

lemma wf_matD: "wf_mat A \<Longrightarrow> i < nrows A \<Longrightarrow> length (rows A ! i) = ncols A"
  by (simp add: wf_mat_def nrows_def list_all_length)

lemma wf_mat_iff: "wf_mat A \<longleftrightarrow> (\<forall>i<nrows A. length (rows A ! i) = ncols A)"
  by (simp add: wf_mat_def nrows_def list_all_length)

lemma mat_eqI:
  assumes "wf_mat A" "wf_mat B" "nrows A = nrows B" "ncols A = ncols B"
    and "\<And>i j. i < nrows A \<Longrightarrow> j < ncols A \<Longrightarrow> rows A ! i ! j = rows B ! i ! j"
  shows "A = B"
proof -
  have "rows A = rows B"
  proof (rule nth_equalityI)
    show "length (rows A) = length (rows B)" using assms(3) by (simp add: nrows_def)
    fix i assume i: "i < length (rows A)"
    then have ia: "i < nrows A" and ib: "i < nrows B" using assms(3) by (simp_all add: nrows_def)
    show "rows A ! i = rows B ! i"
      by (rule nth_equalityI)
         (simp_all add: wf_matD [OF assms(1) ia] wf_matD [OF assms(2) ib] assms(4) assms(5) [OF ia])
  qed
  with assms(4) show ?thesis by (simp add: mat.expand)
qed

lemma mat_mul_dims [simp]:
  "nrows (mat_mul A B) = nrows A" "ncols (mat_mul A B) = ncols B"
  by (simp_all add: mat_mul_def nrows_def)

lemma wf_mat_mul [simp]: "wf_mat (mat_mul A B)"
  by (simp add: wf_mat_iff) (simp add: mat_mul_def nrows_def)

lemma mat_mul_nth:
  "i < nrows A \<Longrightarrow> j < ncols B \<Longrightarrow>
   rows (mat_mul A B) ! i ! j = (\<Sum>k\<leftarrow>[0..<ncols A]. rows A ! i ! k * (rows B ! k ! j))"
  by (simp add: mat_mul_def nrows_def)

lemma transpose_dims [simp]:
  "nrows (transpose_mat A) = ncols A" "ncols (transpose_mat A) = nrows A"
  by (simp_all add: transpose_mat_def nrows_def)

lemma wf_transpose [simp]: "wf_mat (transpose_mat A)"
  by (simp add: wf_mat_iff) (simp add: transpose_mat_def nrows_def)

lemma conj_dims [simp]:
  "nrows (conj_mat A) = nrows A" "ncols (conj_mat A) = ncols A"
  by (simp_all add: conj_mat_def nrows_def)

lemma wf_conj [simp]: "wf_mat A \<Longrightarrow> wf_mat (conj_mat A)"
  by (simp add: wf_mat_def conj_mat_def list_all_length)

lemma identity_dims [simp]: "nrows (identity n) = n" "ncols (identity n) = n"
  by (simp_all add: identity_def nrows_def)

lemma wf_identity [simp]: "wf_mat (identity n)"
  by (simp add: wf_mat_iff) (simp add: identity_def nrows_def)

lemma identity_nth: "i < n \<Longrightarrow> j < n \<Longrightarrow> rows (identity n) ! i ! j = (if i = j then 1 else 0)"
  by (simp add: identity_def)

lemma sum_list_delta:
  "i < n \<Longrightarrow> (\<Sum>k\<leftarrow>[0..<n]. if i = k then f k else (0::complex)) = f i"
  by (simp add: interv_sum_list_conv_sum_set_nat sum.delta)

lemma sum_list_delta':
  "i < n \<Longrightarrow> (\<Sum>k\<leftarrow>[0..<n]. if k = i then f k else (0::complex)) = f i"
  by (simp add: interv_sum_list_conv_sum_set_nat sum.delta')

lemma mat_mul_identity_left:
  assumes "wf_mat A" shows "mat_mul (identity (nrows A)) A = A"
proof (rule mat_eqI)
  fix i j assume "i < nrows (mat_mul (identity (nrows A)) A)" "j < ncols (mat_mul (identity (nrows A)) A)"
  then have i: "i < nrows A" and j: "j < ncols A" by simp_all
  have "rows (mat_mul (identity (nrows A)) A) ! i ! j
      = (\<Sum>k\<leftarrow>[0..<nrows A]. rows (identity (nrows A)) ! i ! k * (rows A ! k ! j))"
    using i j by (simp add: mat_mul_nth)
  also have "\<dots> = (\<Sum>k\<leftarrow>[0..<nrows A]. if i = k then rows A ! k ! j else 0)"
    using i by (intro arg_cong [of _ _ sum_list] map_cong) (auto simp: identity_nth)
  also have "\<dots> = rows A ! i ! j" using i by (rule sum_list_delta)
  finally show "rows (mat_mul (identity (nrows A)) A) ! i ! j = rows A ! i ! j" .
qed (simp_all add: assms)

lemma mat_mul_assoc:
  assumes "wf_mat A" "wf_mat B" "wf_mat C" "ncols A = nrows B" "ncols B = nrows C"
  shows "mat_mul (mat_mul A B) C = mat_mul A (mat_mul B C)"
proof (rule mat_eqI)
  fix i j assume "i < nrows (mat_mul (mat_mul A B) C)" "j < ncols (mat_mul (mat_mul A B) C)"
  then have i: "i < nrows A" and j: "j < ncols C" by simp_all
  have "rows (mat_mul (mat_mul A B) C) ! i ! j
      = (\<Sum>k\<leftarrow>[0..<ncols B]. rows (mat_mul A B) ! i ! k * (rows C ! k ! j))"
    using i j by (simp add: mat_mul_nth)
  also have "\<dots> = (\<Sum>k\<leftarrow>[0..<ncols B]. (\<Sum>l\<leftarrow>[0..<ncols A]. rows A ! i ! l * (rows B ! l ! k)) * (rows C ! k ! j))"
    using i by (intro arg_cong [of _ _ sum_list] map_cong) (auto simp: mat_mul_nth)
  also have "\<dots> = (\<Sum>k<ncols B. \<Sum>l<ncols A. rows A ! i ! l * (rows B ! l ! k) * (rows C ! k ! j))"
    by (simp add: interv_sum_list_conv_sum_set_nat sum_distrib_right atLeast0LessThan)
  also have "\<dots> = (\<Sum>l<ncols A. \<Sum>k<ncols B. rows A ! i ! l * (rows B ! l ! k) * (rows C ! k ! j))"
    by (rule sum.swap)
  also have "\<dots> = (\<Sum>l\<leftarrow>[0..<ncols A]. rows A ! i ! l * (\<Sum>k\<leftarrow>[0..<ncols B]. rows B ! l ! k * (rows C ! k ! j)))"
    by (simp add: interv_sum_list_conv_sum_set_nat sum_distrib_left atLeast0LessThan mult.assoc)
  also have "\<dots> = (\<Sum>l\<leftarrow>[0..<ncols A]. rows A ! i ! l * (rows (mat_mul B C) ! l ! j))"
    using j assms(4) by (intro arg_cong [of _ _ sum_list] map_cong) (auto simp: mat_mul_nth)
  also have "\<dots> = rows (mat_mul A (mat_mul B C)) ! i ! j"
    using i j by (simp add: mat_mul_nth)
  finally show "rows (mat_mul (mat_mul A B) C) ! i ! j = rows (mat_mul A (mat_mul B C)) ! i ! j" .
qed simp_all


lemma mat_map2_dims [simp]:
  "ncols (mat_map2 f A B) = ncols A" "nrows (mat_map2 f A B) = min (nrows A) (nrows B)"
  by (simp_all add: mat_map2_def nrows_def)

lemma mat_map2_nth:
  assumes "wf_mat A" "wf_mat B" "ncols A = ncols B" "i < nrows A" "i < nrows B" "j < ncols A"
  shows "rows (mat_map2 f A B) ! i ! j = f (rows A ! i ! j) (rows B ! i ! j)"
  using assms wf_matD [OF assms(1) assms(4)] wf_matD [OF assms(2) assms(5)]
  by (simp add: mat_map2_def nrows_def)

lemma wf_mat_map2 [simp]:
  assumes "wf_mat A" "wf_mat B" "ncols A = ncols B"
  shows "wf_mat (mat_map2 f A B)"
  using assms by (auto simp: wf_mat_iff mat_map2_def nrows_def)

lemma zeros_dims [simp]: "nrows (zeros n m) = n" "ncols (zeros n m) = m"
  by (simp_all add: zeros_def nrows_def)

lemma wf_zeros [simp]: "wf_mat (zeros n m)"
  by (simp add: wf_mat_iff) (simp add: zeros_def nrows_def)

lemma mat_sub_self:
  assumes "wf_mat A" shows "mat_map2 (-) A A = zeros (nrows A) (ncols A)"
proof (rule mat_eqI)
  fix i j assume "i < nrows (mat_map2 (-) A A)" "j < ncols (mat_map2 (-) A A)"
  then have "i < nrows A" "j < ncols A" by simp_all
  then show "rows (mat_map2 (-) A A) ! i ! j = rows (zeros (nrows A) (ncols A)) ! i ! j"
    using assms by (simp add: mat_map2_nth) (simp add: zeros_def)
qed (simp_all add: assms)

lemma mat_mul_identity_right:
  assumes "wf_mat A" shows "mat_mul A (identity (ncols A)) = A"
proof (rule mat_eqI)
  fix i j assume "i < nrows (mat_mul A (identity (ncols A)))" "j < ncols (mat_mul A (identity (ncols A)))"
  then have i: "i < nrows A" and j: "j < ncols A" by simp_all
  have "rows (mat_mul A (identity (ncols A))) ! i ! j
      = (\<Sum>k\<leftarrow>[0..<ncols A]. rows A ! i ! k * rows (identity (ncols A)) ! k ! j)"
    using i j by (simp add: mat_mul_nth)
  also have "\<dots> = (\<Sum>k\<leftarrow>[0..<ncols A]. if k = j then rows A ! i ! k else 0)"
    using j by (intro arg_cong [of _ _ sum_list] map_cong) (auto simp: identity_nth)
  also have "\<dots> = rows A ! i ! j" using j by (rule sum_list_delta')
  finally show "rows (mat_mul A (identity (ncols A))) ! i ! j = rows A ! i ! j" .
qed (simp_all add: assms)

lemma mat_mul_sub_right:
  assumes "wf_mat B" "wf_mat C" "nrows B = nrows C" "ncols B = ncols C" "ncols A = nrows B"
  shows "mat_mul A (mat_map2 (-) B C) = mat_map2 (-) (mat_mul A B) (mat_mul A C)"
proof (rule mat_eqI)
  fix i j assume "i < nrows (mat_mul A (mat_map2 (-) B C))" "j < ncols (mat_mul A (mat_map2 (-) B C))"
  then have i: "i < nrows A" and j: "j < ncols B" by simp_all
  have "rows (mat_mul A (mat_map2 (-) B C)) ! i ! j
      = (\<Sum>k\<leftarrow>[0..<ncols A]. rows A ! i ! k * (rows (mat_map2 (-) B C) ! k ! j))"
    using i j by (simp add: mat_mul_nth)
  also have "\<dots> = (\<Sum>k\<leftarrow>[0..<ncols A]. rows A ! i ! k * (rows B ! k ! j) - rows A ! i ! k * (rows C ! k ! j))"
    using j assms by (intro arg_cong [of _ _ sum_list] map_cong) (auto simp: mat_map2_nth right_diff_distrib)
  also have "\<dots> = rows (mat_mul A B) ! i ! j - rows (mat_mul A C) ! i ! j"
    using i j assms by (simp add: mat_mul_nth sum_list_subtractf)
  also have "\<dots> = rows (mat_map2 (-) (mat_mul A B) (mat_mul A C)) ! i ! j"
    using i j assms by (simp add: mat_map2_nth)
  finally show "rows (mat_mul A (mat_map2 (-) B C)) ! i ! j
     = rows (mat_map2 (-) (mat_mul A B) (mat_mul A C)) ! i ! j" .
qed (simp_all add: assms)

text \<open>the value of gab, and the bra applied to it\<close>

lemma gab_value:
  assumes inv: "linv (mat_mul (transpose_mat (conj_mat A)) B) = Inr C"
    and dims: "nrows A = nrows B" "ncols C = ncols A" "nrows C = ncols B"
  shows "gab linv A B = Inr (mat_mul B (mat_mul C (transpose_mat (conj_mat A))))"
  using assms by (simp add: gab_def dot_def)

lemma bra_gab:
  assumes wfA: "wf_mat A" and wfC: "wf_mat C"
    and dims: "ncols C = ncols A" "nrows C = ncols A"
    and unit: "mat_mul (mat_mul (transpose_mat (conj_mat A)) A) C = identity (ncols A)"
  shows "mat_mul (transpose_mat (conj_mat A)) (mat_mul A (mat_mul C (transpose_mat (conj_mat A))))
         = transpose_mat (conj_mat A)"
proof -
  let ?H = "transpose_mat (conj_mat A)"
  have "mat_mul ?H (mat_mul A (mat_mul C ?H)) = mat_mul (mat_mul ?H A) (mat_mul C ?H)"
    using wfA dims by (simp add: mat_mul_assoc)
  also have "\<dots> = mat_mul (mat_mul (mat_mul ?H A) C) ?H"
    using wfA wfC dims by (simp add: mat_mul_assoc)
  also have "\<dots> = mat_mul (identity (nrows ?H)) ?H"
    by (simp add: unit)
  also have "\<dots> = ?H"
    by (rule mat_mul_identity_left) simp
  finally show ?thesis .
qed

text \<open>
  C4 (as amended). For every well-formed matrix \<open>A\<close> whose overlap \<open>A\<^sup>\<dagger> A\<close> is inverted
  by \<^verbatim>\<open>scipy.linalg.inv\<close> (\<open>C\<close> is the well-formed matrix it returns, a right inverse of
  the overlap), in particular for every square matrix of full rank, \<open>G = gab(A, A)\<close>
  satisfies \<open>A\<^sup>\<dagger> G = A\<^sup>\<dagger>\<close>: it is a projector onto the column space of \<open>A\<close>, and
  \<open>A\<^sup>\<dagger> (I - G)\<close> is the zero matrix.
\<close>

theorem gab_projector:
  assumes wfA: "wf_mat A" and wfC: "wf_mat C"
    and inv: "linv (mat_mul (transpose_mat (conj_mat A)) A) = Inr C"
    and unit: "dot (mat_mul (transpose_mat (conj_mat A)) A) C = Inr (identity (ncols A))"
  shows "bra_times_gab linv A = Inr (transpose_mat (conj_mat A))
       \<and> bra_times_complement linv A = Inr (zeros (ncols A) (nrows A))"
proof -
  let ?H = "transpose_mat (conj_mat A)"
  let ?G = "mat_mul A (mat_mul C ?H)"
  from unit have dims: "nrows C = ncols A" "ncols C = ncols A"
    and u: "mat_mul (mat_mul ?H A) C = identity (ncols A)"
    by (auto simp: dot_def split: if_splits dest: arg_cong [of _ _ ncols])
  have g: "gab linv A A = Inr ?G"
    using gab_value [of linv A A C] inv dims by simp
  have hg: "mat_mul ?H ?G = ?H"
    by (rule bra_gab [OF wfA wfC dims(2) dims(1) u])
  have 1: "bra_times_gab linv A = Inr ?H"
    by (simp add: bra_times_gab_def g dot_def hg)
  have "mat_mul ?H (mat_map2 (-) (identity (nrows A)) ?G)
        = mat_map2 (-) (mat_mul ?H (identity (ncols ?H))) (mat_mul ?H ?G)"
    using mat_mul_sub_right [of "identity (nrows A)" ?G ?H] by simp
  also have "\<dots> = mat_map2 (-) ?H ?H"
    using mat_mul_identity_right [of ?H] by (simp add: hg)
  also have "\<dots> = zeros (ncols A) (nrows A)"
    using mat_sub_self [of ?H] by simp
  finally have 2: "bra_times_complement linv A = Inr (zeros (ncols A) (nrows A))"
    by (simp add: bra_times_complement_def g mat_sub_def elementwise_def shape_def dot_def)
  from 1 2 show ?thesis ..
qed

lemmas eval_mat = gab_def dot_def mat_mul_def transpose_mat_def conj_mat_def nrows_def
  identity_def zeros_def mat_sub_def mat_add_def elementwise_def mat_map2_def shape_def
  small_inv_def bra_times_gab_def bra_times_complement_def wf_mat_def

text \<open>
  C4 as stated fails: for the one-by-one matrix \<open>A = (1)\<close>, \<open>A\<^sup>\<dagger> (I - G)\<close> is \<open>(0)\<close>, not
  \<open>A\<^sup>\<dagger> = (1)\<close>.
\<close>

theorem gab_complement_counterexample:
  "bra_times_complement small_inv (Mat 1 [[1]]) = Inr (Mat 1 [[0]])
   \<and> Mat 1 [[0]] \<noteq> transpose_mat (conj_mat (Mat 1 [[1]]))"
  by (simp add: eval_mat)

theorem gab_projector_witness:
  "wf_mat (Mat 2 [[1, 2], [0, 1]]) \<and> wf_mat (Mat 2 [[5, - 2], [- 2, 1]])
   \<and> small_inv (mat_mul (transpose_mat (conj_mat (Mat 2 [[1, 2], [0, 1]]))) (Mat 2 [[1, 2], [0, 1]]))
       = Inr (Mat 2 [[5, - 2], [- 2, 1]])
   \<and> dot (mat_mul (transpose_mat (conj_mat (Mat 2 [[1, 2], [0, 1]]))) (Mat 2 [[1, 2], [0, 1]]))
        (Mat 2 [[5, - 2], [- 2, 1]]) = Inr (identity (ncols (Mat 2 [[1, 2], [0, 1]])))
   \<and> bra_times_gab small_inv (Mat 2 [[1, 2], [0, 1]])
       = Inr (transpose_mat (conj_mat (Mat 2 [[1, 2], [0, 1]])))
   \<and> bra_times_complement small_inv (Mat 2 [[1, 2], [0, 1]])
       = Inr (zeros (ncols (Mat 2 [[1, 2], [0, 1]])) (nrows (Mat 2 [[1, 2], [0, 1]])))"
proof -
  have a: "wf_mat (Mat 2 [[1, 2], [0, 1]])" and c: "wf_mat (Mat 2 [[5, - 2], [- 2, 1]])"
    by (simp_all add: wf_mat_def)
  have i: "small_inv (mat_mul (transpose_mat (conj_mat (Mat 2 [[1, 2], [0, 1]]))) (Mat 2 [[1, 2], [0, 1]]))
       = Inr (Mat 2 [[5, - 2], [- 2, 1]])"
    by (simp add: eval_mat numeral_2_eq_2)
  have u: "dot (mat_mul (transpose_mat (conj_mat (Mat 2 [[1, 2], [0, 1]]))) (Mat 2 [[1, 2], [0, 1]]))
        (Mat 2 [[5, - 2], [- 2, 1]]) = Inr (identity (ncols (Mat 2 [[1, 2], [0, 1]])))"
    by (simp add: eval_mat numeral_2_eq_2)
  from a c i u
    gab_projector [of "Mat 2 [[1, 2], [0, 1]]" "Mat 2 [[5, - 2], [- 2, 1]]" small_inv]
  show ?thesis
    by blast
qed

section \<open>Properties of the mixed estimator\<close>

lemmas names_defs = names_weight_def names_enumer_def names_edenom_def names_eproj_def
  names_ekin_def names_epot_def names_time_def

lemma cadd_assoc: "cadd (cadd a b) c = cadd a (cadd b c)"
  by (cases a; cases b; cases c) simp_all

lemma cadd_zero [simp]: "cadd a (Fin 0) = a"
  by (cases a) simp_all

lemma update_loop_append:
  "update_loop f es (xs @ ys) = ebind (update_loop f es xs) (\<lambda>es'. update_loop f es' ys)"
proof (induction xs arbitrary: es)
  case Nil
  show ?case by simp
next
  case (Cons x xs)
  show ?case
    by (cases "f es x") (simp_all add: Cons.IH)
qed

lemma update_walker_char:
  "update_walker gf le r es w =
     (if length es \<le> names_epot then Inl IndexError
      else if \<not> fits gf r (length es) w then Inl ValueError
      else Inr (map (\<lambda>i. cadd (es ! i) (Fin (contrib gf le r w i))) [0..<length es]))"
proof -
  obtain E T V where le: "le (gf w) = (E, T, V)" by (cases "le (gf w)")
  show ?thesis
  proof (cases "length es \<le> names_epot")
    case True
    then show ?thesis
      by (auto simp: update_walker_def Let_def le add_at_def names_defs)
  next
    case False
    then have len: "5 < length es" by (simp add: names_defs)
    show ?thesis
    proof (cases "fits gf r (length es) w")
      case False
      with len show ?thesis
        by (auto simp: update_walker_def Let_def le add_at_def add_from_def names_defs fits_def)
    next
      case True
      with len show ?thesis
        apply (simp add: update_walker_def Let_def le add_at_def add_from_def names_defs fits_def)
        apply (intro conjI impI nth_equalityI)
           apply (auto simp: nth_list_update contrib_def le names_defs nth_append Let_def)
        done
    qed
  qed
qed

lemma update_walker_fp_char:
  "update_walker_fp gf le es w =
     (if length es \<le> names_edenom then Inl IndexError
      else Inr (map (\<lambda>i. cadd (es ! i) (Fin (contrib_fp gf le w i))) [0..<length es]))"
proof (cases "length es \<le> names_edenom")
  case True
  then show ?thesis
    by (auto simp: update_walker_fp_def Let_def add_at_def names_defs)
next
  case False
  then have len: "2 < length es" by (simp add: names_defs)
  then show ?thesis
    apply (simp add: update_walker_fp_def Let_def add_at_def names_defs)
    apply (intro conjI impI nth_equalityI)
     apply (auto simp: nth_list_update contrib_fp_def names_defs Let_def)
    done
qed

lemma update_loop_sum:
  assumes f: "\<And>es w. f es w =
      (if bad1 (length es) then Inl IndexError
       else if bad2 (length es) w then Inl ValueError
       else Inr (map (\<lambda>i. cadd (es ! i) (Fin (c w i))) [0..<length es]))"
    and run: "update_loop f es ws = Inr es'"
  shows "es' = map (\<lambda>i. cadd (es ! i) (Fin (\<Sum>w\<leftarrow>ws. c w i))) [0..<length es]"
  using run
proof (induction ws arbitrary: es)
  case Nil
  then show ?case by (simp add: map_nth)
next
  case (Cons w ws)
  let ?es1 = "map (\<lambda>i. cadd (es ! i) (Fin (c w i))) [0..<length es]"
  have step: "f es w = Inr ?es1"
  proof (cases "f es w")
    case (Inl e)
    with Cons.prems show ?thesis by simp
  next
    case (Inr x)
    with f [of es w] show ?thesis by (simp split: if_splits)
  qed
  with Cons.prems have rest: "update_loop f ?es1 ws = Inr es'"
    by simp
  from Cons.IH [OF rest] show ?case
    by (simp add: cadd_assoc)
qed

lemma Mixed_update_nth:
  assumes run: "Mixed_update gf le self ws fp = Inr self'"
    and i: "i \<le> names_edenom \<or> (\<not> fp \<and> i \<le> names_epot)"
  shows "estimates self' ! i =
           cadd (estimates self ! i)
             (Fin (\<Sum>w\<leftarrow>ws. if fp then contrib_fp gf le w i else contrib gf le (rdm self) w i))"
proof (cases ws)
  case Nil
  with run show ?thesis by (auto simp: Mixed_update_def)
next
  case (Cons w ws')
  define f where "f = (if \<not> fp then update_walker gf le (rdm self) else update_walker_fp gf le)"
  define c where "c = (\<lambda>w i. if fp then contrib_fp gf le w i else contrib gf le (rdm self) w i)"
  define bad1 where "bad1 = (\<lambda>n. if fp then n \<le> names_edenom else n \<le> names_epot)"
  define bad2 where "bad2 = (\<lambda>n w. \<not> fp \<and> \<not> fits gf (rdm self) n w)"
  have f: "f es w = (if bad1 (length es) then Inl IndexError
       else if bad2 (length es) w then Inl ValueError
       else Inr (map (\<lambda>i. cadd (es ! i) (Fin (c w i))) [0..<length es]))" for es w
    by (simp add: f_def c_def bad1_def bad2_def update_walker_char update_walker_fp_char)
  from run obtain es' where loop: "update_loop f (estimates self) ws = Inr es'"
    and self': "self' = self\<lparr>estimates := es'\<rparr>"
    by (cases "update_loop f (estimates self) ws") (auto simp: Mixed_update_def f_def)
  have es': "es' = map (\<lambda>i. cadd (estimates self ! i) (Fin (\<Sum>w\<leftarrow>ws. c w i)))
                    [0..<length (estimates self)]"
    by (rule update_loop_sum [OF f loop])
  have "\<not> bad1 (length (estimates self))"
    using loop f [of "estimates self" w] by (auto simp: Cons split: if_splits)
  with i have len: "i < length (estimates self)"
    by (auto simp: bad1_def names_defs split: if_splits)
  have "es' ! i = cadd (estimates self ! i) (Fin (\<Sum>w\<leftarrow>ws. c w i))"
    using len by (simp add: es')
  then show ?thesis
    by (simp add: self' c_def)
qed

text \<open>
  C2 (as amended). \<^verbatim>\<open>Mixed.update\<close> keeps the full complex local energy only in free
  projection, where it adds weight \<open>\<times>\<close> energy \<open>\<times>\<close> overlap to the numerator. With
  importance sampling, the default, it adds weight \<open>\<times>\<close> the real part of the energy:
  the imaginary part of the local energy is dropped when the walker is accumulated, not
  at emission.
\<close>

theorem Mixed_update_numerator:
  assumes "Mixed_update gf le self ws fp = Inr self'"
  shows "estimates self' ! names_enumer =
           cadd (estimates self ! names_enumer)
             (Fin (\<Sum>w\<leftarrow>ws. if fp then weight (gf w) * fst (le (gf w)) * ot (gf w)
                              else weight (gf w) * complex_of_real (Re (fst (le (gf w))))))"
proof -
  have c: "(if fp then contrib_fp gf le w names_enumer else contrib gf le (rdm self) w names_enumer)
         = (if fp then weight (gf w) * fst (le (gf w)) * ot (gf w)
            else weight (gf w) * complex_of_real (Re (fst (le (gf w)))))" for w
    by (cases "le (gf w)") (simp add: contrib_fp_def contrib_def names_defs creal_def Let_def)
  show ?thesis
    using Mixed_update_nth [OF assms, of names_enumer]
    by (simp add: c names_defs)
qed

theorem Mixed_update_numerator_witness:
  "Mixed_update example_gf example_le example_mixed [example_walker] False
     = Inr (example_mixed\<lparr>estimates := [Fin 1, Fin 0, Fin 1, Fin 0, Fin 0, Fin 0, Fin 0]\<rparr>)
   \<and> estimates (example_mixed\<lparr>estimates := [Fin 1, Fin 0, Fin 1, Fin 0, Fin 0, Fin 0, Fin 0]\<rparr>)
       ! names_enumer
     = cadd (estimates example_mixed ! names_enumer)
         (Fin (\<Sum>w\<leftarrow>[example_walker].
                 if False then weight (example_gf w) * fst (example_le (example_gf w)) * ot (example_gf w)
                 else weight (example_gf w) * complex_of_real (Re (fst (example_le (example_gf w))))))"
proof -
  have run: "Mixed_update example_gf example_le example_mixed [example_walker] False
     = Inr (example_mixed\<lparr>estimates := [Fin 1, Fin 0, Fin 1, Fin 0, Fin 0, Fin 0, Fin 0]\<rparr>)"
    by (simp add: Mixed_update_def update_walker_def add_at_def names_defs creal_def
        example_gf_def example_le_def example_mixed_def example_walker_def numeral_eq_Suc)
  from run Mixed_update_numerator [OF run] show ?thesis
    by blast
qed

text \<open>
  C2 as stated fails: with importance sampling one walker of weight 1 and local energy
  \<open>\<i>\<close> leaves 0 in the numerator, not \<open>\<i>\<close>, and the buffer is the one a local
  energy of 0 leaves.
\<close>

theorem Mixed_update_drops_imaginary_part_counterexample:
  "Mixed_update example_gf example_le example_mixed [example_walker] False
     = Inr (example_mixed\<lparr>estimates := [Fin 1, Fin 0, Fin 1, Fin 0, Fin 0, Fin 0, Fin 0]\<rparr>)
   \<and> Fin 0 \<noteq> Fin (weight example_walker * fst (example_le example_walker))
   \<and> Mixed_update example_gf example_le example_mixed [example_walker] False
     = Mixed_update example_gf zero_le example_mixed [example_walker] False"
  by (simp add: Mixed_update_def update_walker_def add_at_def names_defs creal_def zero_le_def
        example_gf_def example_le_def example_mixed_def example_walker_def numeral_eq_Suc)


lemma ebind_eq_Inr: "ebind r f = Inr y \<longleftrightarrow> (\<exists>x. r = Inr x \<and> f x = Inr y)"
  by (cases r) simp_all

lemma Mixed_zero_Inr:
  assumes "Mixed_zero now self = Inr s"
  shows "names_time < length (estimates self)"
    and "s = self\<lparr>estimates := (replicate (length (estimates self)) (Fin 0))[names_time := Fin (of_real now)],
              global_estimates := replicate (length (global_estimates self)) (Fin 0)\<rparr>"
  using assms by (auto simp: Mixed_zero_def Let_def split: if_splits)

lemma Mixed_normalise_length [simp]:
  "length (snd (Mixed_normalise es nprocs nmeasure t1)) = length es"
  by (simp add: Mixed_normalise_def Let_def)

lemma Mixed_normalise_sums:
  assumes "names_time < length es"
  shows "snd (Mixed_normalise es nprocs nmeasure t1) ! names_weight = es ! names_weight"
    and "snd (Mixed_normalise es nprocs nmeasure t1) ! names_enumer = es ! names_enumer"
    and "snd (Mixed_normalise es nprocs nmeasure t1) ! names_edenom = es ! names_edenom"
  using assms by (simp_all add: Mixed_normalise_def Let_def names_defs)

lemma Mixed_normalise_quotients:
  assumes "names_time < length es"
  shows "snd (Mixed_normalise es nprocs nmeasure t1) ! names_eproj
           = cdiv (es ! names_enumer) (fst (Mixed_normalise es nprocs nmeasure t1))"
    and "snd (Mixed_normalise es nprocs nmeasure t1) ! names_ekin
           = cdiv (es ! names_ekin) (fst (Mixed_normalise es nprocs nmeasure t1))"
    and "snd (Mixed_normalise es nprocs nmeasure t1) ! names_epot
           = cdiv (es ! names_epot) (fst (Mixed_normalise es nprocs nmeasure t1))"
    and "fst (Mixed_normalise es nprocs nmeasure t1)
           = cdiv (cmul (es ! names_edenom) (num nprocs)) (num nmeasure)"
  using assms by (simp_all add: Mixed_normalise_def Let_def names_defs)

lemma cdiv_zero_denominator: "cdiv x (cdiv (cmul (Fin 0) (num a)) (num b)) = NonFinite"
  by (cases x) (simp_all add: num_def)

lemma Reduce_root:
  assumes "\<forall>b\<in>set bs. length b = length send"
  shows "length (fold (\<lambda>b acc. map2 cadd acc b) bs send) = length send"
    and "i < length send \<Longrightarrow>
         fold (\<lambda>b acc. map2 cadd acc b) bs send ! i = fold (\<lambda>b x. cadd x (b ! i)) bs (send ! i)"
  using assms by (induction bs arbitrary: send) simp_all

lemma fold_cadd_zero:
  "\<forall>b\<in>set bs. b ! i = Fin 0 \<Longrightarrow> fold (\<lambda>b x. cadd x (b ! i)) bs x = x"
  by (induction bs arbitrary: x) simp_all

lemma fold_cadd_NonFinite:
  "fold (\<lambda>b x. cadd x (b ! i)) bs NonFinite = NonFinite"
  by (induction bs) simp_all

text \<open>what the reduction delivers on the root, the other buffers being zero at i\<close>

lemma Mixed_reduce_nth:
  assumes red: "Mixed_reduce cm es gs0 = Inr gs"
    and root: "cm = None \<or> map_option rank cm = Some 0"
    and oth: "\<forall>b\<in>set (case cm of None \<Rightarrow> [] | Some c \<Rightarrow> others c). length b = length es"
    and i: "i < length es"
  shows "length gs = length es"
    and "\<forall>b\<in>set (case cm of None \<Rightarrow> [] | Some c \<Rightarrow> others c). b ! i = Fin 0 \<Longrightarrow> gs ! i = es ! i"
    and "es ! i = NonFinite \<Longrightarrow> gs ! i = NonFinite"
proof -
  show "length gs = length es"
    using red root oth
    by (cases cm) (auto simp: Mixed_reduce_def Reduce_def Reduce_root(1) split: if_splits)
  show "gs ! i = es ! i"
    if "\<forall>b\<in>set (case cm of None \<Rightarrow> [] | Some c \<Rightarrow> others c). b ! i = Fin 0"
    using red root oth i that
    by (cases cm) (auto simp: Mixed_reduce_def Reduce_def Reduce_root(2) fold_cadd_zero split: if_splits)
  show "gs ! i = NonFinite" if "es ! i = NonFinite"
    using red root oth i that
    by (cases cm) (auto simp: Mixed_reduce_def Reduce_def Reduce_root(2) fold_cadd_NonFinite split: if_splits)
qed

lemma push_Inr:
  assumes "push h data = Inr h'"
  shows "index h' = index h + 1" and "index h < length (store h')" and "store h' ! index h = data"
  using assms by (auto simp: push_def split: if_splits)

lemma Mixed_write_last_row:
  assumes "Mixed_write self denom step nmeasure = Inr s"
  shows "last_row s = Some (map (\<lambda>x. cdiv x (num nmeasure)) (take (names_time + 1) (global_estimates self)))"
    and "estimates s = estimates self" and "global_estimates s = global_estimates self"
proof -
  from assms obtain h h' where h: "h5_output self = Some h"
    and p: "push h (map (\<lambda>x. cdiv x (num nmeasure)) (take (names_time + 1) (global_estimates self))) = Inr h'"
    and s: "h5_output s = Some h' \<and> estimates s = estimates self \<and> global_estimates s = global_estimates self"
    by (auto simp: Mixed_write_def Let_def ebind_eq_Inr split: option.splits if_splits)
  from push_Inr [OF p] s show "last_row s = Some (map (\<lambda>x. cdiv x (num nmeasure)) (take (names_time + 1) (global_estimates self)))"
    by (simp add: last_row_def)
  from s show "estimates s = estimates self" "global_estimates s = global_estimates self" by simp_all
qed

lemma Mixed_print_step_Inr:
  assumes "Mixed_print_step self cm nprocs step nmeasure t1 t2 = Inr s"
  shows "names_time < length (estimates self)"
    and "estimates s = (replicate (length (estimates self)) (Fin 0))[names_time := Fin (of_real t2)]"
    and "all_zero (global_estimates s)"
proof -
  from assms show len: "names_time < length (estimates self)"
    by (auto simp: Mixed_print_step_def split: if_splits)
  obtain denom es where n: "Mixed_normalise (estimates self) nprocs nmeasure t1 = (denom, es)"
    by (cases "Mixed_normalise (estimates self) nprocs nmeasure t1")
  have les: "length es = length (estimates self)"
    using Mixed_normalise_length [of "estimates self" nprocs nmeasure t1] by (simp add: n)
  from len have nle: "\<not> length (estimates self) \<le> names_time" by simp
  from assms nle obtain gs s' where
    w: "(if cm = None \<or> map_option rank cm = Some 0
         then Mixed_write (self\<lparr>estimates := es, global_estimates := gs\<rparr>) denom step nmeasure
         else Inr (self\<lparr>estimates := es, global_estimates := gs\<rparr>)) = Inr s'"
    and z: "Mixed_zero t2 s' = Inr s"
    by (auto simp: Mixed_print_step_def n ebind_eq_Inr Let_def)
  have "estimates s' = es"
    using w by (auto split: if_splits dest: Mixed_write_last_row(2))
  with Mixed_zero_Inr(2) [OF z] les
  show "estimates s = (replicate (length (estimates self)) (Fin 0))[names_time := Fin (of_real t2)]"
    and "all_zero (global_estimates s)"
    by (simp_all add: all_zero_def)
qed


lemma Mixed_print_step_root:
  assumes run: "Mixed_print_step self cm nprocs step nmeasure t1 t2 = Inr s"
    and root: "cm = None \<or> map_option rank cm = Some 0"
  obtains gs s' where
    "Mixed_reduce cm (snd (Mixed_normalise (estimates self) nprocs nmeasure t1))
        (global_estimates self) = Inr gs"
    and "Mixed_write (self\<lparr>estimates := snd (Mixed_normalise (estimates self) nprocs nmeasure t1),
                           global_estimates := gs\<rparr>)
           (fst (Mixed_normalise (estimates self) nprocs nmeasure t1)) step nmeasure = Inr s'"
    and "Mixed_zero t2 s' = Inr s"
proof -
  from run have nle: "\<not> length (estimates self) \<le> names_time"
    by (auto simp: Mixed_print_step_def split: if_splits)
  from run nle root show ?thesis
    by (auto simp: Mixed_print_step_def ebind_eq_Inr Let_def split_beta intro: that)
qed

lemma last_row_Mixed_zero:
  "Mixed_zero now self = Inr s \<Longrightarrow> last_row s = last_row self"
  by (auto simp: Mixed_zero_def Let_def last_row_def split: if_splits)

lemma cdiv_zero_num: "n \<noteq> 0 \<Longrightarrow> cdiv (Fin 0) (num n) = Fin 0"
  by (simp add: num_def)

text \<open>
  C7. Two emissions of the mixed estimator with no update in between: a first
  \<^verbatim>\<open>print_step\<close> from any state, then a second one that writes (no communicator, or
  rank 0, the buffers of the other processes being emitted as well) with a measurement
  count other than 0. The row the second emission pushes has weight, numerator and
  denominator 0, and its projected, kinetic and potential energies are the non-finite
  results of the division by the zero denominator: nothing is raised and nothing is
  masked. After each of the two emissions the local buffer is zero except for the
  reseeded time field, and the global buffer is zero.
\<close>

theorem Mixed_emit_twice:
  assumes e1: "Mixed_print_step self cm nprocs step nmeasure t1 t2 = Inr s1"
    and e2: "Mixed_print_step s1 cm' nprocs' step' nmeasure' t3 t4 = Inr s2"
    and root: "cm' = None \<or> map_option rank cm' = Some 0"
    and oth: "\<forall>b\<in>set (case cm' of None \<Rightarrow> [] | Some c \<Rightarrow> others c).
                length b = length (estimates s1) \<and> b ! names_weight = Fin 0
                \<and> b ! names_enumer = Fin 0 \<and> b ! names_edenom = Fin 0"
    and nm: "nmeasure' \<noteq> 0"
  shows "(\<exists>row. last_row s2 = Some row
            \<and> row ! names_weight = Fin 0 \<and> row ! names_enumer = Fin 0
            \<and> row ! names_edenom = Fin 0 \<and> row ! names_eproj = NonFinite
            \<and> row ! names_ekin = NonFinite \<and> row ! names_epot = NonFinite)
       \<and> estimates s1 = (replicate (length (estimates self)) (Fin 0))[names_time := Fin (of_real t2)]
       \<and> all_zero (global_estimates s1)
       \<and> estimates s2 = (replicate (length (estimates self)) (Fin 0))[names_time := Fin (of_real t4)]
       \<and> all_zero (global_estimates s2)"
proof -
  note a = Mixed_print_step_Inr [OF e1]
  note b = Mixed_print_step_Inr [OF e2]
  let ?es = "estimates s1"
  let ?N = "Mixed_normalise ?es nprocs' nmeasure' t3"
  have len: "names_time < length ?es" by (rule b(1))
  then have ne: "?es \<noteq> []" by auto
  have z: "?es ! names_weight = Fin 0" "?es ! names_enumer = Fin 0" "?es ! names_edenom = Fin 0"
    "?es ! names_ekin = Fin 0" "?es ! names_epot = Fin 0"
  proof -
    from a(1) have "estimates self \<noteq> []" by auto
    with a(1) show "?es ! names_weight = Fin 0" "?es ! names_enumer = Fin 0"
      "?es ! names_edenom = Fin 0" "?es ! names_ekin = Fin 0" "?es ! names_epot = Fin 0"
      by (simp_all add: a(2) names_defs)
  qed
  have N0: "snd ?N ! names_weight = Fin 0" "snd ?N ! names_enumer = Fin 0"
    "snd ?N ! names_edenom = Fin 0"
    using Mixed_normalise_sums [OF len, of nprocs' nmeasure' t3] by (simp_all add: z)
  have N1: "snd ?N ! names_eproj = NonFinite" "snd ?N ! names_ekin = NonFinite"
    "snd ?N ! names_epot = NonFinite"
    using Mixed_normalise_quotients [OF len, of nprocs' nmeasure' t3]
    by (simp_all add: z cdiv_zero_denominator)
  from Mixed_print_step_root [OF e2 root] obtain gs s' where
    red: "Mixed_reduce cm' (snd ?N) (global_estimates s1) = Inr gs"
    and wr: "Mixed_write (s1\<lparr>estimates := snd ?N, global_estimates := gs\<rparr>) (fst ?N) step' nmeasure' = Inr s'"
    and zr: "Mixed_zero t4 s' = Inr s2"
    by blast
  have oth': "\<forall>b\<in>set (case cm' of None \<Rightarrow> [] | Some c \<Rightarrow> others c). length b = length (snd ?N)"
    using oth by simp
  have lgs: "length gs = length ?es"
    using Mixed_reduce_nth(1) [OF red root oth', of 0] ne by simp
  have g0: "gs ! names_weight = Fin 0" "gs ! names_enumer = Fin 0" "gs ! names_edenom = Fin 0"
    using Mixed_reduce_nth(2) [OF red root oth', of names_weight]
      Mixed_reduce_nth(2) [OF red root oth', of names_enumer]
      Mixed_reduce_nth(2) [OF red root oth', of names_edenom] oth len ne N0
    by (simp_all add: names_defs)
  have g1: "gs ! names_eproj = NonFinite" "gs ! names_ekin = NonFinite" "gs ! names_epot = NonFinite"
    using Mixed_reduce_nth(3) [OF red root oth', of names_eproj]
      Mixed_reduce_nth(3) [OF red root oth', of names_ekin]
      Mixed_reduce_nth(3) [OF red root oth', of names_epot] len ne N1
    by (simp_all add: names_defs)
  let ?row = "map (\<lambda>x. cdiv x (num nmeasure')) (take (names_time + 1) gs)"
  have lr: "last_row s2 = Some ?row"
    using Mixed_write_last_row(1) [OF wr] last_row_Mixed_zero [OF zr] by simp
  have row: "?row ! names_weight = Fin 0" "?row ! names_enumer = Fin 0" "?row ! names_edenom = Fin 0"
    "?row ! names_eproj = NonFinite" "?row ! names_ekin = NonFinite" "?row ! names_epot = NonFinite"
    using len ne lgs g0 g1 nm by (simp_all add: names_defs cdiv_zero_num)
  have l2: "length (estimates s1) = length (estimates self)"
    by (simp add: a(2))
  show ?thesis
    using lr row a(2,3) b(2,3) l2 by simp
qed


lemmas eval_print = Mixed_print_step_def Mixed_normalise_def Mixed_reduce_def Mixed_write_def
  Mixed_zero_def push_def Reduce_def num_def names_defs Let_def numeral_eq_Suc creal_def

theorem Mixed_emit_twice_witness:
  "Mixed_print_step example_mixed None 1 0 1 5 6 = Inr example_emitted
   \<and> Mixed_print_step example_emitted (Some example_comm) 1 1 1 7 8 = Inr example_emitted_twice
   \<and> (Some example_comm = None \<or> map_option rank (Some example_comm) = Some 0)
   \<and> others example_comm = [[Fin 0, Fin 0, Fin 0, NonFinite, NonFinite, NonFinite, Fin 1]]
   \<and> length [Fin 0, Fin 0, Fin 0, NonFinite, NonFinite, NonFinite, Fin 1]
       = length (estimates example_emitted)
   \<and> (1::int) \<noteq> 0
   \<and> (\<exists>row. last_row example_emitted_twice = Some row
            \<and> row ! names_weight = Fin 0 \<and> row ! names_enumer = Fin 0
            \<and> row ! names_edenom = Fin 0 \<and> row ! names_eproj = NonFinite
            \<and> row ! names_ekin = NonFinite \<and> row ! names_epot = NonFinite)
   \<and> estimates example_emitted
       = (replicate (length (estimates example_mixed)) (Fin 0))[names_time := Fin (of_real 6)]
   \<and> all_zero (global_estimates example_emitted)
   \<and> estimates example_emitted_twice
       = (replicate (length (estimates example_mixed)) (Fin 0))[names_time := Fin (of_real 8)]
   \<and> all_zero (global_estimates example_emitted_twice)"
proof -
  have e1: "Mixed_print_step example_mixed None 1 0 1 5 6 = Inr example_emitted"
    by (simp add: eval_print example_mixed_def example_emitted_def)
  have e2: "Mixed_print_step example_emitted (Some example_comm) 1 1 1 7 8
              = Inr example_emitted_twice"
    by (simp add: eval_print example_mixed_def example_emitted_def example_emitted_twice_def
        example_comm_def)
  have root: "Some example_comm = None \<or> map_option rank (Some example_comm) = Some 0"
    by (simp add: example_comm_def)
  have oth: "\<forall>b\<in>set (case Some example_comm of None \<Rightarrow> [] | Some c \<Rightarrow> others c).
         length b = length (estimates example_emitted) \<and> b ! names_weight = Fin 0
         \<and> b ! names_enumer = Fin 0 \<and> b ! names_edenom = Fin 0"
    by (simp add: example_comm_def example_emitted_def names_defs)
  have nm: "(1::int) \<noteq> 0" by simp
  have buf: "others example_comm = [[Fin 0, Fin 0, Fin 0, NonFinite, NonFinite, NonFinite, Fin 1]]"
    "length [Fin 0, Fin 0, Fin 0, NonFinite, NonFinite, NonFinite, Fin 1]
       = length (estimates example_emitted)"
    by (simp_all add: example_comm_def example_emitted_def)
  from e1 e2 root buf nm Mixed_emit_twice [OF e1 e2 root oth nm] show ?thesis
    by blast
qed

section \<open>Additivity of the accumulation\<close>

subsection \<open>Rounding to 53 significant bits\<close>

lemma round_even_of_int [simp]: "round_even (of_int n) = n"
  by (simp add: round_even_def)

lemma round_even_half: "even n \<Longrightarrow> round_even (of_int n + 1 / 2) = n"
  by (simp add: round_even_def Let_def)

lemma round_even_numeral [simp]: "round_even (numeral n) = numeral n"
  by (simp add: round_even_def)

lemma round_even_neg_numeral [simp]: "round_even (- numeral n) = - numeral n"
  by (simp add: round_even_def)

lemma floor_log2:
  assumes "2 ^ k \<le> \<bar>x\<bar>" "\<bar>x\<bar> < 2 ^ Suc k"
  shows "\<lfloor>log 2 \<bar>x\<bar>\<rfloor> = int k"
proof -
  have pos: "0 < \<bar>x\<bar>" using assms(1) by (smt (verit) zero_less_power)
  have "2 powr real k \<le> \<bar>x\<bar>"
    using assms(1) by (simp add: powr_realpow)
  then have lo: "real k \<le> log 2 \<bar>x\<bar>"
    using pos by (simp add: le_log_iff)
  have "(2::real) powr real (Suc k) = 2 ^ Suc k"
    by (rule powr_realpow) simp
  then have "\<bar>x\<bar> < 2 powr real (Suc k)"
    using assms(2) by simp
  then have hi: "log 2 \<bar>x\<bar> < real (Suc k)"
    using pos by (simp add: log_less_iff)
  show ?thesis
    using lo hi by (intro floor_unique) simp_all
qed

lemma fl_binade:
  assumes "2 ^ k \<le> \<bar>x\<bar>" "\<bar>x\<bar> < 2 ^ Suc k"
  shows "fl x = of_int (round_even (x / 2 powr (real k - 52))) * 2 powr (real k - 52)"
proof -
  have "x \<noteq> 0" using assms(1) by (smt (verit) zero_less_power)
  then show ?thesis
    by (simp add: fl_def floor_log2 [OF assms] Let_def)
qed

lemma fl_zero [simp]: "fl 0 = 0"
  by (simp add: fl_def)

lemma fl_one [simp]: "fl 1 = 1"
proof -
  have "fl 1 = of_int (round_even (1 / 2 powr (real 0 - 52))) * 2 powr (real 0 - 52)"
    by (rule fl_binade) simp_all
  also have "1 / 2 powr (real 0 - 52) = (of_int (2 ^ 52) :: real)"
    by (simp add: powr_neg_numeral)
  also have "of_int (round_even (of_int (2 ^ 52))) * 2 powr (real 0 - 52) = (1::real)"
    by (simp add: powr_neg_numeral)
  finally show ?thesis .
qed

lemma fl_big [simp]: "fl 10000000000000000 = 10000000000000000"
proof -
  have "fl 10000000000000000
      = of_int (round_even (10000000000000000 / 2 powr (real 53 - 52))) * 2 powr (real 53 - 52)"
    by (rule fl_binade) simp_all
  also have "10000000000000000 / 2 powr (real 53 - 52) = (of_int 5000000000000000 :: real)"
    by simp
  also have "of_int (round_even (of_int 5000000000000000)) * 2 powr (real 53 - 52)
      = (10000000000000000 :: real)"
    by simp
  finally show ?thesis .
qed

lemma fl_neg_big [simp]: "fl (- 10000000000000000) = - 10000000000000000"
proof -
  have "fl (- 10000000000000000)
      = of_int (round_even (- 10000000000000000 / 2 powr (real 53 - 52))) * 2 powr (real 53 - 52)"
    by (rule fl_binade) simp_all
  also have "- 10000000000000000 / 2 powr (real 53 - 52) = (of_int (- 5000000000000000) :: real)"
    by simp
  also have "of_int (round_even (of_int (- 5000000000000000))) * 2 powr (real 53 - 52)
      = (- 10000000000000000 :: real)"
    by (simp only: round_even_of_int) simp
  finally show ?thesis .
qed

lemma fl_big_plus_one [simp]: "fl 10000000000000001 = 10000000000000000"
proof -
  have "fl 10000000000000001
      = of_int (round_even (10000000000000001 / 2 powr (real 53 - 52))) * 2 powr (real 53 - 52)"
    by (rule fl_binade) simp_all
  also have "10000000000000001 / 2 powr (real 53 - 52) = (of_int 5000000000000000 + 1 / 2 :: real)"
    by simp
  also have "round_even (of_int 5000000000000000 + 1 / 2) = 5000000000000000"
    by (rule round_even_half) simp
  also have "of_int 5000000000000000 * 2 powr (real 53 - 52) = (10000000000000000 :: real)"
    by simp
  finally show ?thesis .
qed


subsection \<open>Splitting and reordering the population\<close>

text \<open>Over the exact arithmetic the parametrised update is \<^verbatim>\<open>Mixed.update\<close> as modelled above.\<close>

lemma add_at_with_exact: "add_at_with exact_arith = add_at"
  by (simp add: fun_eq_iff add_at_with_def add_at_def exact_arith_def)

lemma add_from_with_exact: "add_from_with exact_arith = add_from"
  by (simp add: fun_eq_iff add_from_with_def add_from_def exact_arith_def)

lemma rmul_exact: "rmul exact_arith = (*)"
  by (simp add: exact_arith_def)

lemma Mixed_update_with_exact:
  "Mixed_update_with exact_arith gf le self ws fp = Mixed_update gf le self ws fp"
proof -
  have "update_walker_with exact_arith gf le r = update_walker gf le r" for r
    by (simp add: fun_eq_iff update_walker_with_def update_walker_def add_at_with_exact
        add_from_with_exact rmul_exact cong del: if_weak_cong)
  moreover have "update_walker_fp_with exact_arith gf le = update_walker_fp gf le"
    by (simp add: fun_eq_iff update_walker_fp_with_def update_walker_fp_def add_at_with_exact
        rmul_exact)
  ultimately show ?thesis
    by (simp add: Mixed_update_with_def Mixed_update_def)
qed

text \<open>
  C6. Accumulation by the mixed estimator is additive in the order of the walkers:
  \<^verbatim>\<open>update\<close> on a population \<open>ws1\<close> followed by \<^verbatim>\<open>update\<close> on \<open>ws2\<close> leaves the estimator
  (or raises) exactly as one call of \<^verbatim>\<open>update\<close> on \<open>ws1 @ ws2\<close> does, the walkers in the
  same order, in both sampling modes, for fixed weights and local energies of the
  walkers, and whatever the arithmetic of the buffer: the same additions are made in
  the same sequence, so that no property of the addition is needed.
\<close>

theorem Mixed_update_additive:
  "Mixed_update_then ar gf le self ws1 ws2 fp = Mixed_update_with ar gf le self (ws1 @ ws2) fp"
proof -
  define f where "f = (if \<not> fp then update_walker_with ar gf le (rdm self)
                       else update_walker_fp_with ar gf le)"
  have mu: "Mixed_update_with ar gf le s xs fp
      = ebind (update_loop f (estimates s) xs) (\<lambda>es. Inr (s\<lparr>estimates := es\<rparr>))"
    if "rdm s = rdm self" for s xs
    using that by (simp add: Mixed_update_with_def f_def)
  show ?thesis
    unfolding Mixed_update_then_def
    by (cases "update_loop f (estimates self) ws1")
       (simp_all add: mu update_loop_append)
qed

text \<open>
  C6 as stated fails for a permutation of the walkers: the additions of complex128 are
  not associative. With importance sampling, a local energy of 1 and walkers of weights
  \<open>10\<^sup>1\<^sup>6\<close>, 1 and \<open>- 10\<^sup>1\<^sup>6\<close>, \<^verbatim>\<open>update\<close> on the first two walkers and then on the third
  leaves 0 for the weight, the numerator and the denominator (\<open>10\<^sup>1\<^sup>6 + 1\<close> is rounded to
  \<open>10\<^sup>1\<^sup>6\<close>), while one \<^verbatim>\<open>update\<close> on the first, the third and the second leaves 1.
\<close>

lemmas eval_rounded = Mixed_update_then_def Mixed_update_with_def update_walker_with_def
  add_at_with_def ieee_arith_def fl_add_def fl_mul_def names_defs creal_def
  big_walker_def unit_walker_def negative_walker_def example_walker_def example_mixed_def
  example_gf_def unit_le_def complex_eq_iff numeral_eq_Suc

theorem Mixed_update_order_dependent_counterexample:
  "Mixed_update_then ieee_arith example_gf unit_le example_mixed
      [big_walker, unit_walker] [negative_walker] False
     = Inr (example_mixed\<lparr>estimates := [Fin 0, Fin 0, Fin 0, Fin 0, Fin 0, Fin 0, Fin 0]\<rparr>)
   \<and> Mixed_update_with ieee_arith example_gf unit_le example_mixed
      [big_walker, negative_walker, unit_walker] False
     = Inr (example_mixed\<lparr>estimates := [Fin 1, Fin 1, Fin 1, Fin 0, Fin 0, Fin 0, Fin 0]\<rparr>)"
  by (simp add: eval_rounded)

section \<open>Properties of the back-propagation estimator\<close>

lemma weight_chain_step:
  "cdiv (cmul (cdiv (cmul f (Fin w)) (Fin c)) (Fin p)) (Fin q)
     = cdiv (cmul f (Fin (w * p))) (Fin (c * q))"
  by (cases f) (simp_all add: field_simps)

lemma weight_factor_loop_full:
  assumes "length ws = length cs"
    and "map (\<lambda>x. item x 0) weight_fac = map Inr ws"
    and "map (\<lambda>x. item x 0) cos_fac = map Inr cs"
  shows "weight_factor_loop (PyStr ''full'') f (zip weight_fac cos_fac)
           = Inr (cdiv (cmul f (Fin (prod_list ws))) (Fin (prod_list cs)))"
  using assms
proof (induction ws cs arbitrary: weight_fac cos_fac f rule: list_induct2)
  case Nil
  then show ?case by (cases f) simp_all
next
  case (Cons w ws c cs)
  from Cons.prems obtain x xs y ys where wf: "weight_fac = x # xs" and cf: "cos_fac = y # ys"
    and x: "item x 0 = Inr w" and y: "item y 0 = Inr c"
    and xs: "map (\<lambda>x. item x 0) xs = map Inr ws" and ys: "map (\<lambda>x. item x 0) ys = map Inr cs"
    by (cases weight_fac; cases cos_fac) auto
  show ?case
    by (simp add: wf cf x y Let_def Cons.IH [OF xs ys] weight_chain_step)
qed

lemma weight_factor_loop_other:
  assumes "rw \<noteq> PyStr ''full''"
    and "length weight_fac = length cos_fac"
    and "map (\<lambda>x. item x 0) weight_fac = map Inr ws"
  shows "weight_factor_loop rw f (zip weight_fac cos_fac) = Inr (cmul f (Fin (prod_list ws)))"
  using assms(2,3)
proof (induction weight_fac cos_fac arbitrary: ws f rule: list_induct2)
  case Nil
  then show ?case by (cases f) simp_all
next
  case (Cons x xs y ys)
  from Cons.prems obtain w ws' where ws: "ws = w # ws'" and x: "item x 0 = Inr w"
    and xs: "map (\<lambda>x. item x 0) xs = map Inr ws'"
    by (cases ws) auto
  have "cmul (cmul f (Fin w)) (Fin (prod_list ws')) = cmul f (Fin (w * prod_list ws'))"
    by (cases f) simp_all
  then show ?case
    by (simp add: ws x Let_def assms(1) Cons.IH [OF xs])
qed

text \<open>
  C5. For a walker whose block of the field-configuration history stores the weight
  factors \<open>w\<^sub>1, \<dots>, w\<^sub>n\<close> and the cosine factors \<open>c\<^sub>1, \<dots>, c\<^sub>n\<close> (element 0 of each
  stored array), \<^verbatim>\<open>calculate_weight_factor\<close> returns the product of the \<open>w\<^sub>i\<close> when the
  restore-weights policy is not \<^verbatim>\<open>"full"\<close>, and that product divided by the product of the
  \<open>c\<^sub>i\<close> when the policy is \<^verbatim>\<open>"full"\<close>. A cosine factor of 0 is not guarded: the result
  is then the non-finite value of a division by zero, as is the quotient of the
  products.
\<close>

theorem calculate_weight_factor_product:
  assumes blk: "get_block (field_configs w) = (cfgs, cos_fac, weight_fac)"
    and ws: "map (\<lambda>x. item x 0) weight_fac = map Inr ws"
    and cs: "map (\<lambda>x. item x 0) cos_fac = map Inr cs"
    and len: "length ws = length cs"
  shows "calculate_weight_factor self w =
           Inr (if restore_weights self = PyStr ''full''
                then cdiv (Fin (prod_list ws)) (Fin (prod_list cs))
                else Fin (prod_list ws))"
proof (cases "restore_weights self = PyStr ''full''")
  case True
  then show ?thesis
    using weight_factor_loop_full [OF len ws cs, of "Fin 1"]
    by (simp add: calculate_weight_factor_def blk)
next
  case False
  have "length weight_fac = length cos_fac"
    using len arg_cong [OF ws, of length] arg_cong [OF cs, of length] by simp
  from weight_factor_loop_other [OF False this ws, of "Fin 1"] False show ?thesis
    by (simp add: calculate_weight_factor_def blk)
qed

theorem calculate_weight_factor_product_witness:
  "get_block (field_configs example_bp_walker) = ([[1, 1], [1, - 1]], [[2], [4]], [[3], [5]])
   \<and> map (\<lambda>x. item x 0) [[3], [5]] = map Inr [3, 5 :: complex]
   \<and> map (\<lambda>x. item x 0) [[2], [4]] = map Inr [2, 4 :: complex]
   \<and> length [3, 5 :: complex] = length [2, 4 :: complex]
   \<and> calculate_weight_factor (example_bp 2) example_bp_walker =
         Inr (if restore_weights (example_bp 2) = PyStr ''full''
              then cdiv (Fin (prod_list [3, 5])) (Fin (prod_list [2, 4]))
              else Fin (prod_list [3, 5]))"
proof -
  have blk: "get_block (field_configs example_bp_walker)
               = ([[1, 1], [1, - 1]], [[2], [4]], [[3], [5]])"
    by (simp add: example_bp_walker_def)
  have ws: "map (\<lambda>x. item x 0) [[3], [5]] = map Inr [3, 5 :: complex]"
    and cs: "map (\<lambda>x. item x 0) [[2], [4]] = map Inr [2, 4 :: complex]"
    by (simp_all add: item_def)
  have len: "length [3, 5 :: complex] = length [2, 4 :: complex]" by simp
  from blk ws cs len calculate_weight_factor_product [OF blk ws cs len, of "example_bp 2"]
  show ?thesis by blast
qed

text \<open>
  C3 (as amended). A back-propagation estimator with a window of 0 is not a silent,
  disabled one. On the root process its construction raises ZeroDivisionError, from
  \<^verbatim>\<open>nsteps // nmax\<close>, whether the window is configured as 0 or left at its default; and
  on an estimator with a window of 0 every call of \<^verbatim>\<open>update\<close> raises ZeroDivisionError,
  from \<^verbatim>\<open>step % nmax\<close>. With a window other than 0, \<^verbatim>\<open>update\<close> at a step that is not a
  multiple of the window returns without accumulating and without raising.
\<close>

theorem update_uhf_window:
  "(bp_nmax self = 0 \<longrightarrow> update_uhf linv ext self sys walkers step = Inl ZeroDivisionError)
   \<and> (bp_nmax self \<noteq> 0 \<and> step mod bp_nmax self \<noteq> 0 \<longrightarrow>
        update_uhf linv ext self sys walkers step = Inr (self, walkers))
   \<and> (nback_prop = None \<or> nback_prop = Some 0 \<longrightarrow>
        BackPropagation_init nback_prop rdm_flag restore True nsteps nstblz trial_G
          = Inl ZeroDivisionError)"
  by (auto simp: update_uhf_def BackPropagation_init_def)

theorem update_uhf_window_witness:
  "bp_nmax (example_bp 0) = 0
   \<and> update_uhf small_inv example_bp_ext (example_bp 0) example_system [example_bp_walker] 3
       = Inl ZeroDivisionError
   \<and> bp_nmax (example_bp 2) \<noteq> 0 \<and> 3 mod bp_nmax (example_bp 2) \<noteq> 0
   \<and> update_uhf small_inv example_bp_ext (example_bp 2) example_system [example_bp_walker] 3
       = Inr (example_bp 2, [example_bp_walker])
   \<and> BackPropagation_init (Some 0) False PyNone True 10 1 [zeros 2 2, zeros 2 2]
       = Inl ZeroDivisionError"
proof -
  have a: "bp_nmax (example_bp 0) = 0"
    and b: "bp_nmax (example_bp 2) \<noteq> 0 \<and> 3 mod bp_nmax (example_bp 2) \<noteq> 0"
    by (simp_all add: example_bp_def)
  from a b
    update_uhf_window [of "example_bp 0" small_inv example_bp_ext example_system
      "[example_bp_walker]" 3 "Some 0" False PyNone 10 1 "[zeros 2 2, zeros 2 2]"]
    update_uhf_window [of "example_bp 2" small_inv example_bp_ext example_system
      "[example_bp_walker]" 3 "Some 0" False PyNone 10 1 "[zeros 2 2, zeros 2 2]"]
  show ?thesis by simp
qed

text \<open>
  C3 as stated fails: with a window of 0, \<^verbatim>\<open>update\<close> at step 3 raises
  ZeroDivisionError, and so does the construction with the default window on the root
  process.
\<close>

theorem update_uhf_zero_window_counterexample:
  "update_uhf small_inv example_bp_ext (example_bp 0) example_system [example_bp_walker] 3
     = Inl ZeroDivisionError
   \<and> BackPropagation_init None False PyNone True 10 1 [zeros 2 2, zeros 2 2]
     = Inl ZeroDivisionError"
  by (simp add: update_uhf_def example_bp_def BackPropagation_init_def)

section \<open>Properties of the imaginary-time Green's function\<close>

lemmas eval_arr = increment_tau_uhf_stable_def increment_tau_uhf_unstable_def item_def set_slot_def
  example_G_def example_G_up2_def nrows_def dot_def mat_mul_def identity_def small_inv_def

text \<open>
  C9. The claim that the stable increment keeps the spin channels apart does not hold of
  the code: its last statement computes the down-spin lesser component from
  \<^verbatim>\<open>Gls[0]\<close>, the up-spin component just assigned, where the statement for the greater
  component and the unstable increment read the down-spin component. Two inputs that
  differ in the up-spin lesser component only, the identity and twice the identity, give
  different down-spin lesser components.
\<close>

theorem increment_tau_uhf_stable_mixes_spins:
  "increment_tau_uhf_stable small_inv example_G example_G [identity 2, identity 2] example_G example_G
     = Inr (example_G, [Arr2 (identity 2), Arr2 (identity 2)])
   \<and> increment_tau_uhf_stable small_inv example_G example_G_up2 [identity 2, identity 2] example_G example_G
     = Inr (example_G, [Arr2 (Mat 2 [[2, 0], [0, 2]]), Arr2 (Mat 2 [[2, 0], [0, 2]])])
   \<and> example_G ! 1 = example_G_up2 ! 1
   \<and> Arr2 (identity 2) \<noteq> Arr2 (Mat 2 [[2, 0], [0, 2]])"
  by (simp add: eval_arr numeral_2_eq_2)

lemma increment_tau_uhf_unstable_keeps_spins:
  "increment_tau_uhf_unstable small_inv example_G example_G_up2 [identity 2, identity 2]
     = Inr (example_G, [Arr2 (Mat 2 [[2, 0], [0, 2]]), Arr2 (identity 2)])"
  by (simp add: eval_arr numeral_2_eq_2)

text \<open>
  C8. With the modes \<^verbatim>\<open>'full'\<close> and \<^verbatim>\<open>'diagonal'\<close> the whole buffer and the diagonals
  of its matrices are pushed (\<open>to_file_full\<close>, \<open>to_file_diagonal\<close> below). With a list
  of index pairs the code does not persist the selected entries: \<^verbatim>\<open>to_file\<close> raises
  NameError on the first slice, here for the list of the single pair (0, 0).
\<close>

theorem to_file_list_mode_raises:
  "to_file (example_itcf True (ModeList [(0, 0)]))
     \<lparr>store = replicate 2 (RowFull (zero_spgf 3 2)), index = 0\<rparr> (zero_spgf 3 2)
   = Inl NameError"
  by (simp add: to_file_def example_itcf_def zero_spgf_def numeral_3_eq_3)

lemma to_file_full:
  "itcf_mode self = ModeStr ''full'' \<Longrightarrow> to_file self grp buf = push grp (RowFull buf)"
  by (simp add: to_file_def)

lemma to_file_diagonal:
  "itcf_mode self = ModeStr ''diagonal'' \<Longrightarrow>
   to_file self grp buf = push grp (RowSelected (map (map (map diagonal)) buf))"
  by (simp add: to_file_def)

lemma to_file_list:
  "itcf_mode self = ModeList l \<Longrightarrow> to_file self grp (g # buf) = Inl NameError"
  by (simp add: to_file_def)


lemma gab_wf: "gab linv A B = Inr g \<Longrightarrow> wf_mat g"
  by (auto simp: gab_def ebind_eq_Inr dot_def split: if_splits)

lemma mat_sub_Inr:
  "mat_sub A B = Inr C \<Longrightarrow> shape A = shape B \<and> C = mat_map2 (-) A B"
  by (auto simp: mat_sub_def elementwise_def split: if_splits)

lemma complement_sum:
  assumes wfI: "wf_mat I" and wfg: "wf_mat g"
    and gr: "mat_sub I g = Inr Ggr" and ls: "mat_sub I Ggr = Inr Gls"
  shows "mat_add Ggr Gls = Inr I"
proof -
  from mat_sub_Inr [OF gr] have sh: "nrows I = nrows g" "ncols I = ncols g"
    and Ggr: "Ggr = mat_map2 (-) I g"
    by (simp_all add: shape_def)
  from mat_sub_Inr [OF ls] have Gls: "Gls = mat_map2 (-) I Ggr" by simp
  have wfGgr: "wf_mat Ggr" using wfI wfg sh by (simp add: Ggr)
  have dGgr: "nrows Ggr = nrows I" "ncols Ggr = ncols I" using sh by (simp_all add: Ggr)
  have wfGls: "wf_mat Gls" using wfI wfGgr dGgr by (simp add: Gls)
  have dGls: "nrows Gls = nrows I" "ncols Gls = ncols I" using dGgr by (simp_all add: Gls)
  have "mat_map2 (+) Ggr Gls = I"
  proof (rule mat_eqI)
    show "wf_mat (mat_map2 (+) Ggr Gls)" using wfGgr wfGls dGgr dGls by simp
    show "wf_mat I" by (rule wfI)
    show "nrows (mat_map2 (+) Ggr Gls) = nrows I" using dGgr dGls by simp
    show "ncols (mat_map2 (+) Ggr Gls) = ncols I" using dGgr by simp
    fix i j assume "i < nrows (mat_map2 (+) Ggr Gls)" "j < ncols (mat_map2 (+) Ggr Gls)"
    then have i: "i < nrows I" and j: "j < ncols I" using dGgr dGls by simp_all
    have a: "rows Ggr ! i ! j = rows I ! i ! j - rows g ! i ! j"
      unfolding Ggr using wfI wfg sh i j by (simp add: mat_map2_nth)
    have b: "rows Gls ! i ! j = rows I ! i ! j - rows Ggr ! i ! j"
      unfolding Gls using wfI wfGgr dGgr i j by (simp add: mat_map2_nth)
    have "rows (mat_map2 (+) Ggr Gls) ! i ! j = rows Ggr ! i ! j + rows Gls ! i ! j"
      using wfGgr wfGls dGgr dGls i j by (simp add: mat_map2_nth)
    then show "rows (mat_map2 (+) Ggr Gls) ! i ! j = rows I ! i ! j"
      by (simp add: a b)
  qed
  then show ?thesis
    using dGgr dGls by (simp add: mat_add_def elementwise_def shape_def)
qed

lemma wf_mat_scale [simp]: "wf_mat A \<Longrightarrow> wf_mat (mat_scale c A)"
  by (simp add: wf_mat_def mat_scale_def list_all_length)

lemma einsum_i_ijk_wf: "einsum_i_ijk ws Gi = Inr S \<Longrightarrow> wf_mat S"
  by (auto simp: einsum_i_ijk_def wf_mat_def list_all_length split: if_splits list.splits)

lemma construct_multi_ghf_gab_back_prop_wf:
  "construct_multi_ghf_gab_back_prop linv ldet gt A B coeffs wts = Inr GAB \<Longrightarrow> wf_mat GAB"
  by (auto simp: construct_multi_ghf_gab_back_prop_def ebind_eq_Inr Let_def
      split: if_splits dest: einsum_i_ijk_wf)

text \<open>
  C10. The greater and the lesser Green's function that the initial Green's-function
  constructors return are complementary: whenever the constructor returns (the overlap
  is inverted and nothing non-finite arises), their sum is the identity \<^verbatim>\<open>self.I\<close>, in
  each spin channel for the spin-separated variant and as one block for the generalized
  variant. Slice 0 accumulates such a pair.
\<close>

theorem initial_greens_functions_complementary:
  "(initial_greens_function_uhf linv (identity n) A B n_up wts = Inr (Ggr, Gls) \<longrightarrow>
      channel_sum Ggr Gls 0 = Inr (Arr2 (identity n))
      \<and> channel_sum Ggr Gls 1 = Inr (Arr2 (identity n)))
   \<and> (initial_greens_function_ghf linv ldet gt (identity n) coeffs As B n_up wts = Inr (Ggr', Gls') \<longrightarrow>
      mat_add Ggr' Gls' = Inr (identity n))"
proof (intro conjI impI)
  assume u: "initial_greens_function_uhf linv (identity n) A B n_up wts = Inr (Ggr, Gls)"
  then obtain g_up Ggr_up g_down Ggr_down Gls_up Gls_down where
    g: "gab linv (cols_to n_up A) (cols_to n_up B) = Inr g_up"
       "gab linv (cols_from n_up A) (cols_from n_up B) = Inr g_down"
    and s: "mat_sub (identity n) g_up = Inr Ggr_up" "mat_sub (identity n) g_down = Inr Ggr_down"
      "mat_sub (identity n) Ggr_up = Inr Gls_up" "mat_sub (identity n) Ggr_down = Inr Gls_down"
    and r: "Ggr = [Arr2 Ggr_up, Arr2 Ggr_down]" "Gls = [Arr2 Gls_up, Arr2 Gls_down]"
    by (auto simp: initial_greens_function_uhf_def ebind_eq_Inr)
  have up: "mat_add Ggr_up Gls_up = Inr (identity n)"
    by (rule complement_sum [OF wf_identity gab_wf [OF g(1)] s(1) s(3)])
  have down: "mat_add Ggr_down Gls_down = Inr (identity n)"
    by (rule complement_sum [OF wf_identity gab_wf [OF g(2)] s(2) s(4)])
  show "channel_sum Ggr Gls 0 = Inr (Arr2 (identity n))"
    by (simp add: channel_sum_def item_def r up)
  show "channel_sum Ggr Gls 1 = Inr (Arr2 (identity n))"
    by (simp add: channel_sum_def item_def r down)
next
  assume "initial_greens_function_ghf linv ldet gt (identity n) coeffs As B n_up wts = Inr (Ggr', Gls')"
  then obtain GAB where
    g: "construct_multi_ghf_gab_back_prop linv ldet gt As B coeffs wts = Inr GAB"
    and s: "mat_sub (identity n) GAB = Inr Ggr'" "mat_sub (identity n) Ggr' = Inr Gls'"
    by (auto simp: initial_greens_function_ghf_def ebind_eq_Inr)
  show "mat_add Ggr' Gls' = Inr (identity n)"
    by (rule complement_sum [OF wf_identity construct_multi_ghf_gab_back_prop_wf [OF g] s])
qed


lemmas eval_gf = initial_greens_function_uhf_def initial_greens_function_ghf_def
  construct_multi_ghf_gab_back_prop_def pymax_def vec_map2_def einsum_i_ijk_def mat_scale_def
  small_det_def example_gt_def cols_to_def cols_from_def eval_mat

theorem initial_greens_functions_complementary_witness:
  "initial_greens_function_uhf small_inv (identity 2) (identity 2) (identity 2) 1 [1]
     = Inr ([Arr2 (Mat 2 [[0, 0], [0, 1]]), Arr2 (Mat 2 [[1, 0], [0, 0]])],
            [Arr2 (Mat 2 [[1, 0], [0, 0]]), Arr2 (Mat 2 [[0, 0], [0, 1]])])
   \<and> channel_sum [Arr2 (Mat 2 [[0, 0], [0, 1]]), Arr2 (Mat 2 [[1, 0], [0, 0]])]
         [Arr2 (Mat 2 [[1, 0], [0, 0]]), Arr2 (Mat 2 [[0, 0], [0, 1]])] 0 = Inr (Arr2 (identity 2))
   \<and> channel_sum [Arr2 (Mat 2 [[0, 0], [0, 1]]), Arr2 (Mat 2 [[1, 0], [0, 0]])]
         [Arr2 (Mat 2 [[1, 0], [0, 0]]), Arr2 (Mat 2 [[0, 0], [0, 1]])] 1 = Inr (Arr2 (identity 2))
   \<and> initial_greens_function_ghf small_inv small_det example_gt (identity 2) [1]
         [Mat 1 [[1], [0]]] (Mat 1 [[1], [0]]) 1 [1]
     = Inr (Mat 2 [[0, 0], [0, 1]], Mat 2 [[1, 0], [0, 0]])
   \<and> mat_add (Mat 2 [[0, 0], [0, 1]]) (Mat 2 [[1, 0], [0, 0]]) = Inr (identity 2)"
proof -
  have u: "initial_greens_function_uhf small_inv (identity 2) (identity 2) (identity 2) 1 [1]
     = Inr ([Arr2 (Mat 2 [[0, 0], [0, 1]]), Arr2 (Mat 2 [[1, 0], [0, 0]])],
            [Arr2 (Mat 2 [[1, 0], [0, 0]]), Arr2 (Mat 2 [[0, 0], [0, 1]])])"
    by (simp add: eval_gf numeral_2_eq_2)
  have g: "initial_greens_function_ghf small_inv small_det example_gt (identity 2) [1]
         [Mat 1 [[1], [0]]] (Mat 1 [[1], [0]]) 1 [1]
     = Inr (Mat 2 [[0, 0], [0, 1]], Mat 2 [[1, 0], [0, 0]])"
    by (simp add: eval_gf numeral_2_eq_2)
  from u g
    initial_greens_functions_complementary [where linv = small_inv and n = 2
      and A = "identity 2" and B = "identity 2" and n_up = 1 and wts = "[1]"
      and Ggr = "[Arr2 (Mat 2 [[0, 0], [0, 1]]), Arr2 (Mat 2 [[1, 0], [0, 0]])]"
      and Gls = "[Arr2 (Mat 2 [[1, 0], [0, 0]]), Arr2 (Mat 2 [[0, 0], [0, 1]])]"]
    initial_greens_functions_complementary [where linv = small_inv and n = 2
      and ldet = small_det and gt = example_gt and coeffs = "[1]"
      and As = "[Mat 1 [[1], [0]]]" and B = "Mat 1 [[1], [0]]" and n_up = 1 and wts = "[1]"
      and Ggr' = "Mat 2 [[0, 0], [0, 1]]" and Gls' = "Mat 2 [[1, 0], [0, 0]]"]
  show ?thesis by simp
qed



















end
